theory Spec2Isabelle
  imports Main "HOL-Library.AList" "HOL-Library.Char_ord" "HOL-Library.List_Lexorder"
begin

section \<open>Python values used by the stat tracker\<close>

text \<open>
  A Python \<open>dict\<close> with string keys keeps its keys in insertion order, and that order is
  what \<open>json.dump\<close> writes and what \<open>.items()\<close> iterates. It is modelled as an
  association list: \<open>d[k] = v\<close> is \<open>AList.update k v d\<close> (the value is replaced in place
  when the key is present and the pair is appended otherwise), \<open>k in d\<close> is
  \<open>k \<in> fst ` set d\<close>, \<open>del d[k]\<close> is \<open>AList.delete k d\<close>. Stat values are Python ints
  (the annotations of the source say \<open>Dict[str, int]\<close>), so \<open>int(v)\<close> is the identity.
\<close>

type_synonym 'v dict = "(string \<times> 'v) list"

type_synonym stat_map = "int dict"

text \<open>
  The exceptions of the model: the \<open>ValueError\<close> that \<open>upsert_team\<close> and
  \<open>datetime.fromisoformat\<close> raise, with its message, and the \<open>json.JSONDecodeError\<close> of
  \<open>json.load\<close> on a file that does not parse. In Python \<open>json.JSONDecodeError\<close> is a
  subclass of \<open>ValueError\<close>: \<open>is_ValueError e\<close> is \<open>isinstance(e, ValueError)\<close>, what an
  \<open>except ValueError\<close> catches.
\<close>

datatype error = ValueError string | JSONDecodeError

primrec is_ValueError :: "error \<Rightarrow> bool" where
  "is_ValueError (ValueError msg) = True"
| "is_ValueError JSONDecodeError = True"

text \<open>\<open>d.get(k, dflt)\<close>.\<close>

definition dict_get :: "'v dict \<Rightarrow> string \<Rightarrow> 'v \<Rightarrow> 'v" where
  "dict_get d k dflt = (case map_of d k of None \<Rightarrow> dflt | Some v \<Rightarrow> v)"

text \<open>
  A file as the code sees it: it does not exist, it exists and \<open>json.load\<close> raises on it,
  or it parses to a value.
\<close>

datatype 'a json_file = Absent | Unparsable | Json 'a


section \<open>utils/merge\_stats.py\<close>

subsection \<open>The stat schema\<close>

definition PLAYER_STAT_KEYS :: "string list" where
  "PLAYER_STAT_KEYS =
     [''points'', ''throws'', ''table_hits'', ''catches'', ''missed_catches'',
      ''sinks'', ''rim_hits'', ''rounds_won'', ''series_won'']"

definition TEAM_STAT_KEYS :: "string list" where
  "TEAM_STAT_KEYS =
     [''total_points'', ''total_throws'', ''total_table_hits'', ''total_catches'',
      ''total_missed_catches'', ''total_sinks'', ''total_rim_hits'',
      ''total_rounds_won'', ''total_series_won'']"

subsection \<open>The calendar of \<open>datetime\<close>\<close>

text \<open>
  \<open>_iso_week_key\<close> calls \<open>datetime.fromisoformat\<close> and \<open>isocalendar\<close> of the Python
  standard library. They are modelled after CPython's \<open>datetime\<close> module, with Python's
  unbounded ints as \<open>int\<close> (\<open>//\<close> and \<open>%\<close> by a positive number are \<open>div\<close> and
  \<open>mod\<close>). The dates of the series summaries are written by
  \<open>datetime.now().strftime("%Y-%m-%d")\<close>. On a string of that form (four digits, a hyphen,
  two digits, a hyphen, two digits) \<open>fromisoformat\<close> is modelled in full. What it does on
  any other string (a date followed by a time, and from Python 3.11 on the basic and the
  week forms) differs between Python versions and is left open: it is the parameter
  \<open>other_formats\<close> of the model, which every function that parses a date passes on.
\<close>

record datetime =
  year :: int
  month :: int
  day :: int

type_synonym date_parser = "string \<Rightarrow> error + datetime"

definition is_leap :: "int \<Rightarrow> bool" where
  "is_leap y = (y mod 4 = 0 \<and> (y mod 100 \<noteq> 0 \<or> y mod 400 = 0))"

definition days_before_year :: "int \<Rightarrow> int" where
  "days_before_year y = (let y1 = y - 1 in y1 * 365 + y1 div 4 - y1 div 100 + y1 div 400)"

definition days_in_month :: "int \<Rightarrow> int \<Rightarrow> int" where
  "days_in_month y m =
     (if m = 2 \<and> is_leap y then 29
      else [31, 28, 31, 30, 31, 30, 31, 31, 30, 31, 30, 31] ! nat (m - 1))"

definition days_before_month :: "int \<Rightarrow> int \<Rightarrow> int" where
  "days_before_month y m =
     [0, 31, 59, 90, 120, 151, 181, 212, 243, 273, 304, 334] ! nat (m - 1)
       + (if m > 2 \<and> is_leap y then 1 else 0)"

definition ymd2ord :: "int \<Rightarrow> int \<Rightarrow> int \<Rightarrow> int" where
  "ymd2ord y m d = days_before_year y + days_before_month y m + d"

definition toordinal :: "datetime \<Rightarrow> int" where
  "toordinal dt = ymd2ord (year dt) (month dt) (day dt)"

definition isoweek1monday :: "int \<Rightarrow> int" where
  "isoweek1monday y =
     (let firstday = ymd2ord y 1 1;
          firstweekday = (firstday + 6) mod 7;
          week1monday = firstday - firstweekday
      in if firstweekday > 3 then week1monday + 7 else week1monday)"

definition isocalendar :: "datetime \<Rightarrow> int \<times> int \<times> int" where
  "isocalendar dt =
     (let y = year dt;
          week1monday = isoweek1monday y;
          today = toordinal dt;
          week = (today - week1monday) div 7;
          wday = (today - week1monday) mod 7
      in if week < 0 then
           (let y' = y - 1;
                week1monday' = isoweek1monday y';
                week' = (today - week1monday') div 7;
                wday' = (today - week1monday') mod 7
            in (y', week' + 1, wday' + 1))
         else if week \<ge> 52 \<and> today \<ge> isoweek1monday (y + 1) then (y + 1, 1, wday + 1)
         else (y, week + 1, wday + 1))"

definition digit_value :: "char \<Rightarrow> int option" where
  "digit_value c =
     (if c \<in> set ''0123456789'' then Some (int (of_char c) - 48) else None)"

definition parse_digits :: "string \<Rightarrow> int option" where
  "parse_digits s =
     foldl (\<lambda>acc c. case acc of None \<Rightarrow> None
                     | Some a \<Rightarrow> (case digit_value c of None \<Rightarrow> None
                                  | Some v \<Rightarrow> Some (a * 10 + v)))
           (Some 0) s"

definition invalid_isoformat :: error where
  "invalid_isoformat = ValueError ''Invalid isoformat string''"

definition is_digit :: "char \<Rightarrow> bool" where
  "is_digit c = (c \<in> set ''0123456789'')"

text \<open>The form \<open>dddd-dd-dd\<close>.\<close>

definition ymd_shape :: "string \<Rightarrow> bool" where
  "ymd_shape s =
     (length s = 10 \<and> s ! 4 = CHR ''-'' \<and> s ! 7 = CHR ''-''
      \<and> list_all is_digit (take 4 s) \<and> list_all is_digit (take 2 (drop 5 s))
      \<and> list_all is_digit (drop 8 s))"

definition fromisoformat :: "date_parser \<Rightarrow> string \<Rightarrow> error + datetime" where
  "fromisoformat other_formats s =
     (if ymd_shape s then
        (case parse_digits (take 4 s) of None \<Rightarrow> Inl invalid_isoformat
         | Some y \<Rightarrow>
        (case parse_digits (take 2 (drop 5 s)) of None \<Rightarrow> Inl invalid_isoformat
         | Some m \<Rightarrow>
        (case parse_digits (drop 8 s) of None \<Rightarrow> Inl invalid_isoformat
         | Some d \<Rightarrow>
           if 1 \<le> y \<and> y \<le> 9999 \<and> 1 \<le> m \<and> m \<le> 12 \<and> 1 \<le> d \<and> d \<le> days_in_month y m
           then Inr \<lparr>year = y, month = m, day = d\<rparr>
           else Inl invalid_isoformat)))
      else other_formats s)"

text \<open>\<open>str(n)\<close> of an int, and the format \<open>{n:02d}\<close>.\<close>

definition digit_char :: "nat \<Rightarrow> char" where
  "digit_char n = char_of (48 + n)"

fun digits_of :: "nat \<Rightarrow> string" where
  "digits_of n =
     (if n < 10 then [digit_char n] else digits_of (n div 10) @ [digit_char (n mod 10)])"

definition py_str :: "int \<Rightarrow> string" where
  "py_str i = (if i < 0 then CHR ''-'' # digits_of (nat (- i)) else digits_of (nat i))"

definition zfill :: "nat \<Rightarrow> string \<Rightarrow> string" where
  "zfill w s = replicate (w - length s) (CHR ''0'') @ s"

definition format_02d :: "int \<Rightarrow> string" where
  "format_02d i =
     (if i < 0 then CHR ''-'' # zfill 1 (digits_of (nat (- i))) else zfill 2 (digits_of (nat i)))"

text \<open>\<open>_iso_week_key\<close>: the key \<open>f"{year}-W{week:02d}"\<close> of the ISO calendar of the date.\<close>

definition iso_week_key :: "date_parser \<Rightarrow> string \<Rightarrow> error + string" where
  "iso_week_key other_formats date_str =
     (case fromisoformat other_formats date_str of
        Inl e \<Rightarrow> Inl e
      | Inr dt \<Rightarrow>
          (case isocalendar dt of
             (y, week, _) \<Rightarrow> Inr (py_str y @ ''-W'' @ format_02d week)))"

text \<open>
  The ISO 8601 week date in the words of the standard, to compare \<open>isocalendar\<close> with:
  weeks run from Monday to Sunday, a week belongs to the year that holds its Thursday,
  and the weeks of a year are numbered from 1. Ordinal 1 is Monday 0001-01-01.
\<close>

definition weekday_of_ordinal :: "int \<Rightarrow> int" where
  "weekday_of_ordinal n = (n + 6) mod 7"

definition thursday_of_week :: "datetime \<Rightarrow> int" where
  "thursday_of_week dt = toordinal dt - weekday_of_ordinal (toordinal dt) + 3"

definition iso_year_spec :: "datetime \<Rightarrow> int" where
  "iso_year_spec dt =
     (let t = thursday_of_week dt in
      if t \<le> days_before_year (year dt) then year dt - 1
      else if days_before_year (year dt + 1) < t then year dt + 1
      else year dt)"

definition iso_week_spec :: "datetime \<Rightarrow> int" where
  "iso_week_spec dt =
     (thursday_of_week dt - days_before_year (iso_year_spec dt) - 1) div 7 + 1"

text \<open>
  The notations of the claims, digit by digit: the date \<open>YYYY-MM-DD\<close> (what
  \<open>strftime("%Y-%m-%d")\<close> writes for a year from 1000 on) and the week label \<open>YYYY-Www\<close>,
  with four digits for the year and two for the month, the day and the week.
\<close>

definition decimal_digit :: "int \<Rightarrow> char" where
  "decimal_digit k = ''0123456789'' ! nat (k mod 10)"

definition isoformat_date :: "int \<Rightarrow> int \<Rightarrow> int \<Rightarrow> string" where
  "isoformat_date y m d =
     [decimal_digit (y div 1000), decimal_digit (y div 100), decimal_digit (y div 10),
      decimal_digit y, CHR ''-'', decimal_digit (m div 10), decimal_digit m, CHR ''-'',
      decimal_digit (d div 10), decimal_digit d]"

definition iso_week_label :: "int \<Rightarrow> int \<Rightarrow> string" where
  "iso_week_label y w =
     [decimal_digit (y div 1000), decimal_digit (y div 100), decimal_digit (y div 10),
      decimal_digit y, CHR ''-'', CHR ''W'', decimal_digit (w div 10), decimal_digit w]"

subsection \<open>Accumulation\<close>

text \<open>\<open>{k: 0 for k in keys}\<close>, the default of the \<open>defaultdict\<close>s.\<close>

definition zero_stats :: "string list \<Rightarrow> stat_map" where
  "zero_stats keys = map (\<lambda>k. (k, 0)) keys"

text \<open>\<open>_add_stats(dst, src, keys)\<close>; the updated \<open>dst\<close> is returned.\<close>

definition add_stats :: "stat_map \<Rightarrow> stat_map \<Rightarrow> string list \<Rightarrow> stat_map" where
  "add_stats dst src keys =
     fold (\<lambda>k d. AList.update k (dict_get d k 0 + dict_get src k 0) d) keys dst"

text \<open>
  \<open>_add_stats(totals[name], src, keys)\<close> on a \<open>defaultdict\<close> of zeroed stat maps: reading
  \<open>totals[name]\<close> creates the zeroed entry when it is missing, and \<open>_add_stats\<close> mutates
  the entry in place.
\<close>

definition add_entity_stats ::
  "stat_map dict \<Rightarrow> string \<Rightarrow> stat_map \<Rightarrow> string list \<Rightarrow> stat_map dict" where
  "add_entity_stats totals name src keys =
     AList.update name (add_stats (dict_get totals name (zero_stats keys)) src keys) totals"

text \<open>
  \<open>_add_stats(weekly[wk][name], src, keys)\<close> on a \<open>defaultdict\<close> of such
  \<open>defaultdict\<close>s: \<open>weekly[wk]\<close> is created empty when it is missing.
\<close>

definition add_weekly_stats ::
  "stat_map dict dict \<Rightarrow> string \<Rightarrow> string \<Rightarrow> stat_map \<Rightarrow> string list \<Rightarrow> stat_map dict dict"
  where
  "add_weekly_stats weekly wk name src keys =
     AList.update wk (add_entity_stats (dict_get weekly wk []) name src keys) weekly"

subsection \<open>Series summaries and the scan\<close>

text \<open>
  A \<open>series_summary.json\<close> as written by \<open>Series.save_summary\<close>; a field is \<open>None\<close>
  when the key is missing from the object.
\<close>

record series_summary =
  series_id :: "string option"
  date :: "string option"
  team1 :: "string option"
  team2 :: "string option"
  games_played :: "int option"
  series_score :: "int dict option"
  winner :: "string option"
  series_players :: "stat_map dict option"
  series_teams :: "stat_map dict option"

text \<open>The truth value of the parsed object: a dict is falsy exactly when it is empty.\<close>

definition truthy :: "series_summary \<Rightarrow> bool" where
  "truthy d =
     (\<not> (series_id d = None \<and> date d = None \<and> team1 d = None \<and> team2 d = None
         \<and> games_played d = None \<and> series_score d = None \<and> winner d = None
         \<and> series_players d = None \<and> series_teams d = None))"

definition safe_read_json :: "'a json_file \<Rightarrow> 'a option" where
  "safe_read_json f = (case f of Json d \<Rightarrow> Some d | _ \<Rightarrow> None)"

text \<open>An entry of the series root: a plain file, or a directory with its summary file.\<close>

datatype dir_entry = NotADirectory | SeriesDir "series_summary json_file"

datatype series_root = NoDirectory | Directory "(string \<times> dir_entry) list"

fun scan_entries :: "(string \<times> dir_entry) list \<Rightarrow> series_summary list" where
  "scan_entries [] = []"
| "scan_entries ((name, NotADirectory) # es) = scan_entries es"
| "scan_entries ((name, SeriesDir f) # es) =
     (if f = Absent then scan_entries es
      else (case safe_read_json f of
              None \<Rightarrow> scan_entries es
            | Some d \<Rightarrow> if truthy d then d # scan_entries es else scan_entries es))"

definition scan_series_summaries :: "series_root \<Rightarrow> series_summary list" where
  "scan_series_summaries root =
     (case root of NoDirectory \<Rightarrow> [] | Directory es \<Rightarrow> scan_entries es)"

subsection \<open>\<open>merge_all\<close>\<close>

record merge_state =
  weekly_players :: "stat_map dict dict"
  weekly_teams :: "stat_map dict dict"
  season_players :: "stat_map dict"
  season_teams :: "stat_map dict"

record report =
  report_players :: "stat_map dict"
  report_teams :: "stat_map dict"

definition merge_players :: "string \<Rightarrow> stat_map dict \<Rightarrow> merge_state \<Rightarrow> merge_state" where
  "merge_players wk players_block st =
     fold (\<lambda>(pname, pstats) st.
             st\<lparr>weekly_players :=
                  add_weekly_stats (weekly_players st) wk pname pstats PLAYER_STAT_KEYS,
                season_players :=
                  add_entity_stats (season_players st) pname pstats PLAYER_STAT_KEYS\<rparr>)
          players_block st"

definition merge_teams :: "string \<Rightarrow> stat_map dict \<Rightarrow> merge_state \<Rightarrow> merge_state" where
  "merge_teams wk teams_block st =
     fold (\<lambda>(tname, tstats) st.
             st\<lparr>weekly_teams :=
                  add_weekly_stats (weekly_teams st) wk tname tstats TEAM_STAT_KEYS,
                season_teams :=
                  add_entity_stats (season_teams st) tname tstats TEAM_STAT_KEYS\<rparr>)
          teams_block st"

text \<open>The loop over the summaries; an exception of \<open>_iso_week_key\<close> ends it.\<close>

fun merge_loop ::
  "date_parser \<Rightarrow> series_summary list \<Rightarrow> merge_state \<Rightarrow> error + merge_state" where
  "merge_loop other_formats [] st = Inr st"
| "merge_loop other_formats (series # rest) st =
     (case date series of
        None \<Rightarrow> merge_loop other_formats rest st
      | Some d \<Rightarrow>
          if d = [] then merge_loop other_formats rest st
          else (case iso_week_key other_formats d of
                  Inl e \<Rightarrow> Inl e
                | Inr wk \<Rightarrow>
                    merge_loop other_formats rest
                      (merge_teams wk (case series_teams series of None \<Rightarrow> [] | Some b \<Rightarrow> b)
                        (merge_players wk
                          (case series_players series of None \<Rightarrow> [] | Some b \<Rightarrow> b) st))))"

text \<open>The weekly reports: one entry for each key of \<open>weekly_players\<close>, in sorted order.\<close>

definition finalize_weekly :: "merge_state \<Rightarrow> report dict" where
  "finalize_weekly st =
     fold (\<lambda>wk weekly_reports.
             AList.update wk
               \<lparr>report_players = dict_get (weekly_players st) wk [],
                report_teams = dict_get (weekly_teams st) wk []\<rparr>
               weekly_reports)
          (sort (map fst (weekly_players st))) []"

definition merge_all :: "date_parser \<Rightarrow> series_root \<Rightarrow> error + (report dict \<times> report)" where
  "merge_all other_formats series_root =
     (case merge_loop other_formats (scan_series_summaries series_root)
             \<lparr>weekly_players = [], weekly_teams = [], season_players = [], season_teams = []\<rparr>
      of Inl e \<Rightarrow> Inl e
       | Inr st \<Rightarrow>
           Inr (finalize_weekly st,
                \<lparr>report_players = season_players st, report_teams = season_teams st\<rparr>))"

text \<open>
  The season total of an entity for a stat key, and the sum of its weekly totals over all
  weeks of the weekly output (an entity or key that is missing counts 0); \<open>part\<close> selects
  the players or the teams of a report.
\<close>

definition season_total :: "(report \<Rightarrow> stat_map dict) \<Rightarrow> report \<Rightarrow> string \<Rightarrow> string \<Rightarrow> int" where
  "season_total part season name k = dict_get (dict_get (part season) name []) k 0"

definition weekly_sum ::
  "(report \<Rightarrow> stat_map dict) \<Rightarrow> report dict \<Rightarrow> string \<Rightarrow> string \<Rightarrow> int" where
  "weekly_sum part weekly name k =
     sum_list (map (\<lambda>(wk, rep). dict_get (dict_get (part rep) name []) k 0) weekly)"

text \<open>
  What the records give, to compare the totals with. The value of an entity for a key in
  a mapping of stat maps is 0 when the entity or the key is missing. One record gives an
  entity, for a key, the value of the key in the entity's stat map of its players (or
  teams) block. A record counts when it has a date and \<open>_iso_week_key\<close> gives its week;
  the season sum adds what all such records give, the week sum what those of one week
  give.
\<close>

definition stat_value :: "stat_map dict \<Rightarrow> string \<Rightarrow> string \<Rightarrow> int" where
  "stat_value totals name k = dict_get (dict_get totals name []) k 0"

definition record_players :: "series_summary \<Rightarrow> stat_map dict" where
  "record_players d = (case series_players d of None \<Rightarrow> [] | Some b \<Rightarrow> b)"

definition record_teams :: "series_summary \<Rightarrow> stat_map dict" where
  "record_teams d = (case series_teams d of None \<Rightarrow> [] | Some b \<Rightarrow> b)"

definition block_value :: "stat_map dict \<Rightarrow> string \<Rightarrow> string \<Rightarrow> int" where
  "block_value block name k =
     sum_list (map (\<lambda>(n, stats). if n = name then dict_get stats k 0 else 0) block)"

definition record_week :: "date_parser \<Rightarrow> series_summary \<Rightarrow> string option" where
  "record_week other_formats d =
     (case date d of
        None \<Rightarrow> None
      | Some s \<Rightarrow>
          if s = [] then None
          else (case iso_week_key other_formats s of Inl e \<Rightarrow> None | Inr wk \<Rightarrow> Some wk))"

definition season_sum ::
  "(series_summary \<Rightarrow> stat_map dict) \<Rightarrow> date_parser \<Rightarrow> series_summary list
     \<Rightarrow> string \<Rightarrow> string \<Rightarrow> int" where
  "season_sum part other_formats summaries name k =
     sum_list (map (\<lambda>d. if record_week other_formats d = None then 0
                          else block_value (part d) name k) summaries)"

definition week_sum ::
  "(series_summary \<Rightarrow> stat_map dict) \<Rightarrow> date_parser \<Rightarrow> series_summary list
     \<Rightarrow> string \<Rightarrow> string \<Rightarrow> string \<Rightarrow> int" where
  "week_sum part other_formats summaries wk name k =
     sum_list (map (\<lambda>d. if record_week other_formats d = Some wk
                          then block_value (part d) name k else 0) summaries)"










section \<open>utils/registry.py\<close>

record team_entry =
  lifetime_stats :: stat_map
  players :: "string list"

text \<open>
  The persisted registry: the directory \<open>data/registry\<close> and its two files
  \<open>players.json\<close> and \<open>teams.json\<close>.
\<close>

record registry_store =
  registry_dir :: bool
  players_file :: "stat_map dict json_file"
  teams_file :: "team_entry dict json_file"

definition ensure_registry_dirs :: "registry_store \<Rightarrow> registry_store" where
  "ensure_registry_dirs s = s\<lparr>registry_dir := True\<rparr>"

definition load_json :: "'v dict json_file \<Rightarrow> error + 'v dict" where
  "load_json f =
     (case f of Absent \<Rightarrow> Inr [] | Unparsable \<Rightarrow> Inl JSONDecodeError | Json d \<Rightarrow> Inr d)"

definition default_player_stats :: stat_map where
  "default_player_stats =
     [(''points'', 0), (''throws'', 0), (''table_hits'', 0), (''catches'', 0),
      (''missed_catches'', 0), (''sinks'', 0), (''rim_hits'', 0), (''rounds_won'', 0),
      (''series_won'', 0)]"

definition default_team_stats :: stat_map where
  "default_team_stats =
     [(''total_points'', 0), (''total_throws'', 0), (''total_table_hits'', 0),
      (''total_catches'', 0), (''total_missed_catches'', 0), (''total_sinks'', 0),
      (''total_rim_hits'', 0), (''total_rounds_won'', 0), (''total_series_won'', 0)]"

definition load_registry :: "registry_store \<Rightarrow> error + (stat_map dict \<times> team_entry dict)" where
  "load_registry s =
     (case load_json (players_file s) of
        Inl e \<Rightarrow> Inl e
      | Inr players_reg \<Rightarrow>
          (case load_json (teams_file s) of
             Inl e \<Rightarrow> Inl e
           | Inr teams_reg \<Rightarrow> Inr (players_reg, teams_reg)))"

definition save_registry ::
  "registry_store \<Rightarrow> stat_map dict \<Rightarrow> team_entry dict \<Rightarrow> registry_store" where
  "save_registry s players_reg teams_reg =
     (let s1 = (ensure_registry_dirs s)\<lparr>players_file := Json players_reg\<rparr>
      in (ensure_registry_dirs s1)\<lparr>teams_file := Json teams_reg\<rparr>)"

definition list_team_names :: "registry_store \<Rightarrow> error + string list" where
  "list_team_names s =
     (case load_registry s of
        Inl e \<Rightarrow> Inl e
      | Inr (players_reg, teams_reg) \<Rightarrow> Inr (sort (map fst teams_reg)))"

text \<open>
  The functions that write return the store they leave behind together with their result
  or the exception they raise.
\<close>

definition upsert_team ::
  "registry_store \<Rightarrow> string \<Rightarrow> string list \<Rightarrow> registry_store \<times> (error + unit)" where
  "upsert_team s team_name player_names =
     (if length player_names \<noteq> 2 then
        (s, Inl (ValueError ''Teams must have exactly 2 players for 2v2.''))
      else
        (case load_registry s of
           Inl e \<Rightarrow> (s, Inl e)
         | Inr (players_reg, teams_reg) \<Rightarrow>
             (let players_reg' =
                    fold (\<lambda>pname reg.
                            if pname \<notin> fst ` set reg
                            then AList.update pname default_player_stats reg else reg)
                         player_names players_reg;
                  teams_reg' =
                    (case map_of teams_reg team_name of
                       None \<Rightarrow>
                         AList.update team_name
                           \<lparr>lifetime_stats = default_team_stats, players = player_names\<rparr>
                           teams_reg
                     | Some entry \<Rightarrow>
                         AList.update team_name (entry\<lparr>players := player_names\<rparr>) teams_reg)
              in (save_registry s players_reg' teams_reg', Inr ()))))"

definition delete_team :: "registry_store \<Rightarrow> string \<Rightarrow> registry_store \<times> (error + bool)" where
  "delete_team s team_name =
     (case load_registry s of
        Inl e \<Rightarrow> (s, Inl e)
      | Inr (players_reg, teams_reg) \<Rightarrow>
          if team_name \<in> fst ` set teams_reg
          then (save_registry s players_reg (AList.delete team_name teams_reg), Inr True)
          else (s, Inr False))"

subsection \<open>\<open>update_registry_from_totals\<close>\<close>

text \<open>\<open>for k, v in totals.items(): new_stats[k] = int(v)\<close>.\<close>

definition set_totals :: "stat_map \<Rightarrow> stat_map \<Rightarrow> stat_map" where
  "set_totals totals new_stats = fold (\<lambda>(k, v) d. AList.update k v d) totals new_stats"

text \<open>\<open>for k, v in totals.items(): stats[k] = stats.get(k, 0) + int(v)\<close>.\<close>

definition add_totals :: "stat_map \<Rightarrow> stat_map \<Rightarrow> stat_map" where
  "add_totals totals stats =
     fold (\<lambda>(k, v) d. AList.update k (dict_get d k 0 + v) d) totals stats"

text \<open>One round of the loop over \<open>players_totals.items()\<close>.\<close>

definition update_player ::
  "bool \<Rightarrow> string \<times> stat_map \<Rightarrow> stat_map dict \<times> int \<Rightarrow> stat_map dict \<times> int" where
  "update_player overwrite item acc =
     (case item of (pname, totals) \<Rightarrow>
      case acc of (players_reg, players_updated) \<Rightarrow>
        (let reg1 = (if pname \<notin> fst ` set players_reg
                     then AList.update pname default_player_stats players_reg
                     else players_reg);
             reg2 = (if overwrite
                     then AList.update pname (set_totals totals default_player_stats) reg1
                     else AList.update pname
                            (add_totals totals (dict_get reg1 pname default_player_stats)) reg1)
         in (reg2, players_updated + 1)))"

text \<open>One round of the loop over \<open>teams_totals.items()\<close>.\<close>

definition update_team ::
  "bool \<Rightarrow> string \<times> stat_map \<Rightarrow> team_entry dict \<times> int \<Rightarrow> team_entry dict \<times> int" where
  "update_team overwrite item acc =
     (case item of (tname, totals) \<Rightarrow>
      case acc of (teams_reg, teams_updated) \<Rightarrow>
        (let reg1 = (if tname \<notin> fst ` set teams_reg
                     then AList.update tname
                            \<lparr>lifetime_stats = default_team_stats,
                             players = (case map_of teams_reg tname of
                                          None \<Rightarrow> [] | Some e \<Rightarrow> players e)\<rparr>
                            teams_reg
                     else teams_reg);
             entry = dict_get reg1 tname \<lparr>lifetime_stats = default_team_stats, players = []\<rparr>;
             reg2 = (if overwrite
                     then AList.update tname
                            (entry\<lparr>lifetime_stats := set_totals totals default_team_stats\<rparr>) reg1
                     else AList.update tname
                            (entry\<lparr>lifetime_stats := add_totals totals (lifetime_stats entry)\<rparr>)
                            reg1)
         in (reg2, teams_updated + 1)))"

definition update_registry_from_totals ::
  "registry_store \<Rightarrow> stat_map dict \<Rightarrow> stat_map dict \<Rightarrow> bool
     \<Rightarrow> registry_store \<times> (error + int \<times> int)" where
  "update_registry_from_totals s players_totals teams_totals overwrite =
     (let s1 = ensure_registry_dirs s in
      case load_registry s1 of
        Inl e \<Rightarrow> (s1, Inl e)
      | Inr (players_reg, teams_reg) \<Rightarrow>
          (case fold (update_player overwrite) players_totals (players_reg, 0) of
             (players_reg', players_updated) \<Rightarrow>
          (case fold (update_team overwrite) teams_totals (teams_reg, 0) of
             (teams_reg', teams_updated) \<Rightarrow>
               (save_registry s1 players_reg' teams_reg',
                Inr (players_updated, teams_updated)))))"


section \<open>Properties\<close>

subsection \<open>Dictionaries\<close>

lemma dict_get_update_same: "dict_get (AList.update k v d) k dflt = v"
  by (simp add: dict_get_def update_conv')

lemma dict_get_update_other:
  "k' \<noteq> k \<Longrightarrow> dict_get (AList.update k v d) k' dflt = dict_get d k' dflt"
  by (simp add: dict_get_def update_conv')

lemma dict_get_absent: "k \<notin> fst ` set d \<Longrightarrow> dict_get d k dflt = dflt"
  using map_of_eq_None_iff [of d k] by (simp add: dict_get_def)

lemma map_fst_update_present:
  "k \<in> fst ` set d \<Longrightarrow> map fst (AList.update k v d) = map fst d"
  by (simp add: update_keys)

subsection \<open>\<open>_add_stats\<close>\<close>

lemma map_of_add_stats_other:
  "k \<notin> set keys \<Longrightarrow> map_of (add_stats dst src keys) k = map_of dst k"
  unfolding add_stats_def
  by (induction keys arbitrary: dst) (auto simp: update_conv')

lemma map_of_add_stats_key:
  "distinct keys \<Longrightarrow> k \<in> set keys \<Longrightarrow>
     map_of (add_stats dst src keys) k = Some (dict_get dst k 0 + dict_get src k 0)"
proof (induction keys arbitrary: dst)
  case Nil
  then show ?case by simp
next
  case (Cons a keys)
  let ?d = "AList.update a (dict_get dst a 0 + dict_get src a 0) dst"
  have step: "add_stats dst src (a # keys) = add_stats ?d src keys"
    by (simp add: add_stats_def)
  show ?case
  proof (cases "k = a")
    case True
    with Cons.prems have "k \<notin> set keys" by simp
    then have "map_of (add_stats ?d src keys) k = map_of ?d k"
      by (rule map_of_add_stats_other)
    with True step show ?thesis by (simp add: update_conv')
  next
    case False
    with Cons.prems have "k \<in> set keys" "distinct keys" by simp_all
    then have "map_of (add_stats ?d src keys) k = Some (dict_get ?d k 0 + dict_get src k 0)"
      using Cons.IH by blast
    with False step show ?thesis by (simp add: dict_get_update_other)
  qed
qed

lemma keys_add_stats:
  "fst ` set (add_stats dst src keys) = fst ` set dst \<union> set keys"
  unfolding add_stats_def
  by (induction keys arbitrary: dst) (auto simp: dom_update)

lemma map_fst_add_stats:
  "set keys \<subseteq> fst ` set dst \<Longrightarrow> map fst (add_stats dst src keys) = map fst dst"
  unfolding add_stats_def
proof (induction keys arbitrary: dst)
  case Nil
  then show ?case by simp
next
  case (Cons a keys)
  let ?d = "AList.update a (dict_get dst a 0 + dict_get src a 0) dst"
  from Cons.prems have "set keys \<subseteq> fst ` set ?d" by (auto simp: dom_update)
  then have "map fst (fold (\<lambda>k d. AList.update k (dict_get d k 0 + dict_get src k 0) d) keys ?d)
               = map fst ?d"
    by (rule Cons.IH)
  moreover from Cons.prems have "map fst ?d = map fst dst"
    by (simp add: map_fst_update_present)
  ultimately show ?case by simp
qed

lemma map_fst_zero_stats: "map fst (zero_stats keys) = keys"
  by (simp add: zero_stats_def comp_def)

lemma distinct_PLAYER_STAT_KEYS: "distinct PLAYER_STAT_KEYS"
  by (simp add: PLAYER_STAT_KEYS_def)

lemma distinct_TEAM_STAT_KEYS: "distinct TEAM_STAT_KEYS"
  by (simp add: TEAM_STAT_KEYS_def)

text \<open>
  Claim C5. When \<open>_add_stats\<close> accumulates a source map into a destination over a schema
  (a list of distinct keys): every schema key of the result holds the destination's value
  plus the source's value, with 0 for a value that is missing; so a schema key absent
  from the source contributes 0 and is still present. A key outside the schema keeps
  whatever the destination had for it: the source's value for such a key is ignored, and
  the keys of the result are those of the destination and of the schema, nothing of the
  source. Accumulated into the zeroed entry of the \<open>defaultdict\<close>, the result has exactly
  the schema keys, in schema order.
\<close>

theorem add_stats_defaults_and_ignores:
  assumes "distinct keys"
  shows "(k \<in> set keys \<longrightarrow>
            map_of (add_stats dst src keys) k = Some (dict_get dst k 0 + dict_get src k 0))
       \<and> (k \<in> set keys \<and> k \<notin> fst ` set src \<longrightarrow>
            map_of (add_stats dst src keys) k = Some (dict_get dst k 0))
       \<and> (k \<notin> set keys \<longrightarrow> map_of (add_stats dst src keys) k = map_of dst k)
       \<and> fst ` set (add_stats dst src keys) = fst ` set dst \<union> set keys
       \<and> map fst (add_stats (zero_stats keys) src keys) = keys"
proof -
  have "map fst (add_stats (zero_stats keys) src keys) = map fst (zero_stats keys)"
    by (rule map_fst_add_stats) (simp add: zero_stats_def image_image)
  then show ?thesis
    using assms
    by (simp add: map_of_add_stats_key map_of_add_stats_other keys_add_stats
        dict_get_absent map_fst_zero_stats)
qed

theorem add_stats_defaults_and_ignores_witness:
  "distinct PLAYER_STAT_KEYS
   \<and> ''rim_hits'' \<in> set PLAYER_STAT_KEYS
   \<and> ''rim_hits'' \<notin> fst ` set [(''points'', 3), (''bogus'', 7::int)]
   \<and> map_of (add_stats (zero_stats PLAYER_STAT_KEYS) [(''points'', 3), (''bogus'', 7)]
               PLAYER_STAT_KEYS) ''rim_hits'' = Some 0
   \<and> map_of (add_stats (zero_stats PLAYER_STAT_KEYS) [(''points'', 3), (''bogus'', 7)]
               PLAYER_STAT_KEYS) ''points'' = Some 3
   \<and> ''bogus'' \<notin> set PLAYER_STAT_KEYS
   \<and> map_of (add_stats (zero_stats PLAYER_STAT_KEYS) [(''points'', 3), (''bogus'', 7)]
               PLAYER_STAT_KEYS) ''bogus'' = None"
  using add_stats_defaults_and_ignores [OF distinct_PLAYER_STAT_KEYS, of "''rim_hits''"
          "zero_stats PLAYER_STAT_KEYS" "[(''points'', 3), (''bogus'', 7)]"]
        add_stats_defaults_and_ignores [OF distinct_PLAYER_STAT_KEYS, of "''points''"
          "zero_stats PLAYER_STAT_KEYS" "[(''points'', 3), (''bogus'', 7)]"]
        add_stats_defaults_and_ignores [OF distinct_PLAYER_STAT_KEYS, of "''bogus''"
          "zero_stats PLAYER_STAT_KEYS" "[(''points'', 3), (''bogus'', 7)]"]
  by (simp add: PLAYER_STAT_KEYS_def zero_stats_def dict_get_def)


subsection \<open>Loops of upserts\<close>

lemma map_default_absorb:
  assumes "\<And>e. f (f' e) = f e" and "f d' = d"
  shows "map_default k d f (map_default k d' f' xs) = map_default k d f xs"
  using assms by (induction xs) auto

lemma map_default_commute:
  "a \<noteq> k \<Longrightarrow> a \<in> fst ` set xs \<Longrightarrow>
     map_default a da fa (map_default k dk fk xs) = map_default k dk fk (map_default a da fa xs)"
  by (induction xs) auto

lemma update_as_map_default: "AList.update k v xs = map_default k v (\<lambda>_. v) xs"
  by (induction xs) auto

lemma map_default_present:
  "map_of xs k = Some e \<Longrightarrow> map_default k d f xs = AList.update k (f e) xs"
  by (induction xs) auto

lemma map_default_absent:
  "k \<notin> fst ` set xs \<Longrightarrow> map_default k d f xs = AList.update k d xs"
  by (induction xs) auto

text \<open>
  A loop of upserts: each item \<open>(k, x)\<close> creates the entry of \<open>k\<close> as \<open>d x\<close> when it is
  absent and applies \<open>f x\<close> to it otherwise. When a later upsert overrides an earlier
  one, running the loop a second time changes nothing.
\<close>

lemma fold_upsert_keys:
  "fst ` set (fold (\<lambda>(k, x). map_default k (d x) (f x)) ts xs) = fst ` set xs \<union> fst ` set ts"
proof (induction ts arbitrary: xs)
  case Nil
  show ?case by simp
next
  case (Cons t ts)
  obtain a y where t: "t = (a, y)" by (cases t)
  have "fst ` set (fold (\<lambda>(k, x). map_default k (d x) (f x)) ts (map_default a (d y) (f y) xs))
          = fst ` set (map_default a (d y) (f y) xs) \<union> fst ` set ts"
    by (rule Cons.IH)
  then show ?case using t by (simp add: dom_map_default)
qed

lemma fold_upsert_swallow:
  assumes absorb: "\<And>x y e. f x (f y e) = f x e" and dflt: "\<And>x y. f x (d y) = d x"
  shows "fst ` set ts \<subseteq> fst ` set xs \<Longrightarrow>
     map_default k (d x) (f x) (fold (\<lambda>(k, x). map_default k (d x) (f x)) ts (map_default k (d x) (f x) xs))
       = map_default k (d x) (f x) (fold (\<lambda>(k, x). map_default k (d x) (f x)) ts xs)"
proof (induction ts arbitrary: xs)
  case Nil
  show ?case by (simp add: map_default_absorb absorb dflt)
next
  case (Cons t ts)
  obtain a y where t: "t = (a, y)" by (cases t)
  from Cons.prems t have a: "a \<in> fst ` set xs" and ts: "fst ` set ts \<subseteq> fst ` set xs" by auto
  let ?G = "fold (\<lambda>(k, x). map_default k (d x) (f x)) ts"
  have sub: "fst ` set ts \<subseteq> fst ` set (map_default a (d y) (f y) xs)"
    using ts by (auto simp: dom_map_default)
  show ?case
  proof (cases "a = k")
    case True
    then show ?thesis using t by (simp add: map_default_absorb absorb dflt)
  next
    case False
    then have "map_default a (d y) (f y) (map_default k (d x) (f x) xs)
                 = map_default k (d x) (f x) (map_default a (d y) (f y) xs)"
      using a by (rule map_default_commute)
    then show ?thesis using t Cons.IH [OF sub] by simp
  qed
qed

lemma fold_upsert_idem:
  assumes absorb: "\<And>x y e. f x (f y e) = f x e" and dflt: "\<And>x y. f x (d y) = d x"
  shows "fold (\<lambda>(k, x). map_default k (d x) (f x)) ts (fold (\<lambda>(k, x). map_default k (d x) (f x)) ts xs)
           = fold (\<lambda>(k, x). map_default k (d x) (f x)) ts xs"
proof (induction ts rule: rev_induct)
  case Nil
  show ?case by simp
next
  case (snoc t ts)
  obtain k x where t: "t = (k, x)" by (cases t)
  let ?G = "fold (\<lambda>(k, x). map_default k (d x) (f x)) ts"
  have sub: "fst ` set ts \<subseteq> fst ` set (?G xs)" by (simp add: fold_upsert_keys)
  have "map_default k (d x) (f x) (?G (map_default k (d x) (f x) (?G xs)))
          = map_default k (d x) (f x) (?G (?G xs))"
    by (rule fold_upsert_swallow [OF absorb dflt sub])
  then show ?case using t snoc.IH by simp
qed


subsection \<open>The registry store\<close>

lemma load_registry_ensure [simp]: "load_registry (ensure_registry_dirs s) = load_registry s"
  by (simp add: load_registry_def ensure_registry_dirs_def cong: sum.case_cong)

lemma ensure_registry_dirs_idem [simp]:
  "ensure_registry_dirs (ensure_registry_dirs s) = ensure_registry_dirs s"
  by (simp add: ensure_registry_dirs_def)

lemma save_registry_eq:
  "save_registry s players_reg teams_reg =
     \<lparr>registry_dir = True, players_file = Json players_reg, teams_file = Json teams_reg\<rparr>"
  by (cases s) (simp add: save_registry_def ensure_registry_dirs_def)

lemma load_registry_saved [simp]:
  "load_registry (save_registry s players_reg teams_reg) = Inr (players_reg, teams_reg)"
  by (simp add: save_registry_eq load_registry_def load_json_def)

lemma ensure_registry_dirs_saved [simp]:
  "ensure_registry_dirs (save_registry s players_reg teams_reg) = save_registry s players_reg teams_reg"
  by (simp add: save_registry_eq ensure_registry_dirs_def)

lemma save_registry_any: "save_registry s players_reg teams_reg = save_registry s' players_reg teams_reg"
  by (simp add: save_registry_eq)

subsection \<open>The loops of \<open>update_registry_from_totals\<close>\<close>

lemma update_player_count:
  "snd (fold (update_player ow) pt (reg, n)) = n + int (length pt)"
  by (induction pt arbitrary: reg n) (auto simp: update_player_def Let_def)

lemma update_team_count:
  "snd (fold (update_team ow) tt (reg, n)) = n + int (length tt)"
  by (induction tt arbitrary: reg n) (auto simp: update_team_def Let_def)

lemma update_registry_from_totals_load_error:
  "load_registry s = Inl e \<Longrightarrow>
     update_registry_from_totals s pt tt ow = (ensure_registry_dirs s, Inl e)"
  by (simp add: update_registry_from_totals_def)

lemma update_registry_from_totals_loaded:
  assumes "load_registry s = Inr (players_reg, teams_reg)"
  shows "update_registry_from_totals s pt tt ow =
           (save_registry s (fst (fold (update_player ow) pt (players_reg, 0)))
                            (fst (fold (update_team ow) tt (teams_reg, 0))),
            Inr (int (length pt), int (length tt)))"
proof -
  obtain P' n where P: "fold (update_player ow) pt (players_reg, 0) = (P', n)"
    by (cases "fold (update_player ow) pt (players_reg, 0)")
  obtain T' m where T: "fold (update_team ow) tt (teams_reg, 0) = (T', m)"
    by (cases "fold (update_team ow) tt (teams_reg, 0)")
  have n: "n = int (length pt)" using update_player_count [of ow pt players_reg 0] P by simp
  have m: "m = int (length tt)" using update_team_count [of ow tt teams_reg 0] T by simp
  show ?thesis
    using assms P T n m
    by (simp add: update_registry_from_totals_def save_registry_any [of "ensure_registry_dirs s" _ _ s])
qed

lemma update_player_overwrite:
  "update_player True (pn, tot) (reg, n) =
     (map_default pn (set_totals tot default_player_stats)
        (\<lambda>_. set_totals tot default_player_stats) reg, n + 1)"
  by (simp add: update_player_def update_as_map_default [symmetric])

lemma fold_update_player_overwrite:
  "fst (fold (update_player True) pt (reg, n)) =
     fold (\<lambda>(k, x). map_default k (set_totals x default_player_stats)
                       (\<lambda>_. set_totals x default_player_stats)) pt reg"
proof (induction pt arbitrary: reg n)
  case Nil
  show ?case by simp
next
  case (Cons t pt)
  obtain pn tot where t: "t = (pn, tot)" by (cases t)
  show ?case using t Cons.IH by (simp add: update_player_overwrite)
qed

lemma in_keys_of_map_of: "map_of xs k = Some v \<Longrightarrow> k \<in> fst ` set xs"
  using map_of_eq_None_iff [of xs k] by simp

lemma update_team_as_map_default:
  "update_team ow (tn, tot) (reg, n) =
     (map_default tn
        \<lparr>lifetime_stats = (if ow then set_totals tot default_team_stats
                            else add_totals tot default_team_stats), players = []\<rparr>
        (\<lambda>e. e\<lparr>lifetime_stats := (if ow then set_totals tot default_team_stats
                                   else add_totals tot (lifetime_stats e))\<rparr>) reg, n + 1)"
proof (cases "map_of reg tn")
  case None
  then have absent: "tn \<notin> fst ` set reg" by (simp add: map_of_eq_None_iff)
  show ?thesis
    using None absent
    by (simp add: update_team_def Let_def dict_get_update_same map_default_absent)
next
  case (Some e)
  then have present: "tn \<in> fst ` set reg" by (rule in_keys_of_map_of)
  show ?thesis
    using Some present
    by (simp add: update_team_def Let_def dict_get_def map_default_present)
qed

lemma fold_update_team_overwrite:
  "fst (fold (update_team True) tt (reg, n)) =
     fold (\<lambda>(k, x). map_default k \<lparr>lifetime_stats = set_totals x default_team_stats, players = []\<rparr>
                       (\<lambda>e. e\<lparr>lifetime_stats := set_totals x default_team_stats\<rparr>)) tt reg"
proof (induction tt arbitrary: reg n)
  case Nil
  show ?case by simp
next
  case (Cons t tt)
  obtain tn tot where t: "t = (tn, tot)" by (cases t)
  show ?case using t Cons.IH by (simp add: update_team_as_map_default)
qed

lemma players_loop_overwrite_idem:
  "fst (fold (update_player True) pt (fst (fold (update_player True) pt (reg, n)), m))
     = fst (fold (update_player True) pt (reg, n))"
  unfolding fold_update_player_overwrite
  by (rule fold_upsert_idem) simp_all

lemma teams_loop_overwrite_idem:
  "fst (fold (update_team True) tt (fst (fold (update_team True) tt (reg, n)), m))
     = fst (fold (update_team True) tt (reg, n))"
  unfolding fold_update_team_overwrite
  by (rule fold_upsert_idem [where d = "\<lambda>x. \<lparr>lifetime_stats = set_totals x default_team_stats, players = []\<rparr>"
        and f = "\<lambda>x e. e\<lparr>lifetime_stats := set_totals x default_team_stats\<rparr>"]) simp_all

text \<open>
  Claim C1. Reconciliation with \<open>overwrite=True\<close> is a fixed point: for every store and
  every totals input, a second call of \<open>update_registry_from_totals\<close> with the same
  arguments on the store the first call left behind returns that same store (and the same
  result). This also covers a registry file that does not parse: both calls raise and
  leave the files as they were.
\<close>

theorem overwrite_reconciliation_fixed_point:
  "update_registry_from_totals (fst (update_registry_from_totals s pt tt True)) pt tt True
     = update_registry_from_totals s pt tt True"
proof (cases "load_registry s")
  case (Inl e)
  then show ?thesis by (simp add: update_registry_from_totals_load_error)
next
  case (Inr loaded)
  obtain P T where loaded: "loaded = (P, T)" by (cases loaded)
  show ?thesis
    using Inr loaded
    by (simp add: update_registry_from_totals_loaded players_loop_overwrite_idem
        teams_loop_overwrite_idem save_registry_any [of "save_registry s _ _" _ _ s])
qed


subsection \<open>Rosters\<close>

lemma roster_map_default:
  assumes "players d = []" and "\<And>e. players (f e) = players e"
  shows "map_option players (map_of (map_default k d f xs) t) =
           (if t = k \<and> map_of xs k = None then Some [] else map_option players (map_of xs t))"
  using assms by (simp add: map_of_map_default split: option.split)

lemma map_of_map_default_None:
  "map_of (map_default k d f xs) t = None \<longleftrightarrow> t \<noteq> k \<and> map_of xs t = None"
  by (simp add: map_of_map_default split: option.split)

lemma roster_fold_update_team:
  "map_option players (map_of (fst (fold (update_team ow) tt (reg, n))) t) =
     (if map_of reg t = None \<and> t \<in> fst ` set tt then Some []
      else map_option players (map_of reg t))"
proof (induction tt arbitrary: reg n)
  case Nil
  show ?case by simp
next
  case (Cons item tt)
  obtain tn tot where item: "item = (tn, tot)" by (cases item)
  define d where "d = \<lparr>lifetime_stats = (if ow then set_totals tot default_team_stats
                            else add_totals tot default_team_stats), players = []\<rparr>"
  define f where "f = (\<lambda>e::team_entry. e\<lparr>lifetime_stats := (if ow then set_totals tot default_team_stats
                                   else add_totals tot (lifetime_stats e))\<rparr>)"
  have step: "update_team ow (tn, tot) (reg, n) = (map_default tn d f reg, n + 1)"
    unfolding d_def f_def by (rule update_team_as_map_default)
  have d: "players d = []" by (simp add: d_def)
  have f: "\<And>e. players (f e) = players e" by (simp add: f_def)
  have IH: "map_option players (map_of (fst (fold (update_team ow) tt (map_default tn d f reg, n + 1))) t) =
     (if map_of (map_default tn d f reg) t = None \<and> t \<in> fst ` set tt then Some []
      else map_option players (map_of (map_default tn d f reg) t))"
    by (rule Cons.IH)
  show ?case
    using item step IH
    by (auto simp: map_of_map_default_None roster_map_default [OF d f])
qed

text \<open>
  Claim C7. \<open>update_registry_from_totals\<close> never changes a roster, whatever \<open>overwrite\<close>
  is: in the registry it saves, a team that was there before the call has the \<open>players\<close>
  list it had, a team the call created has the empty list, and no other team exists.
  When the registry does not load, the call raises and the teams file is as before.
\<close>

theorem rosters_untouched_by_totals:
  "(load_registry s = Inr (players_reg, teams_reg) \<longrightarrow>
      (case load_registry (fst (update_registry_from_totals s pt tt ow)) of
         Inl e \<Rightarrow> False
       | Inr (players_reg', teams_reg') \<Rightarrow>
           map_option players (map_of teams_reg' t) =
             (if t \<in> fst ` set teams_reg then map_option players (map_of teams_reg t)
              else if t \<in> fst ` set tt then Some [] else None)))
   \<and> (load_registry s = Inl e \<longrightarrow>
        teams_file (fst (update_registry_from_totals s pt tt ow)) = teams_file s)"
proof -
  have "map_of teams_reg t = None \<longleftrightarrow> t \<notin> fst ` set teams_reg"
    by (rule map_of_eq_None_iff)
  then show ?thesis
    by (auto simp: update_registry_from_totals_loaded update_registry_from_totals_load_error
        roster_fold_update_team ensure_registry_dirs_def)
qed

subsection \<open>\<open>upsert_team\<close>\<close>

lemma map_of_ensure_players:
  "map_of (fold (\<lambda>pname reg. if pname \<notin> fst ` set reg
                              then AList.update pname default_player_stats reg else reg) ps reg) p
     = (if p \<in> set ps \<and> p \<notin> fst ` set reg then Some default_player_stats else map_of reg p)"
proof (induction ps arbitrary: reg)
  case Nil
  show ?case by simp
next
  case (Cons a ps)
  let ?reg1 = "if a \<notin> fst ` set reg then AList.update a default_player_stats reg else reg"
  have keys: "fst ` set ?reg1 = insert a (fst ` set reg)"
    by (auto simp: dom_update)
  have val: "map_of ?reg1 p = (if p = a \<and> a \<notin> fst ` set reg then Some default_player_stats
                              else map_of reg p)"
    by (simp add: update_conv')
  have "map_of (fold (\<lambda>pname reg. if pname \<notin> fst ` set reg
                              then AList.update pname default_player_stats reg else reg) ps ?reg1) p
     = (if p \<in> set ps \<and> p \<notin> fst ` set ?reg1 then Some default_player_stats else map_of ?reg1 p)"
    by (rule Cons.IH)
  then show ?case
    unfolding keys val by auto
qed

text \<open>
  Claim C10, as amended. \<open>upsert_team\<close> raises its own \<open>ValueError\<close> (the one with the
  message about two players) exactly when \<open>player_names\<close> does not have two elements, and
  then nothing was loaded or saved: the store is unchanged. With two names the call
  raises only when the registry does not load: the exception is that of the load (a
  \<open>json.JSONDecodeError\<close>, itself a \<open>ValueError\<close>) and the store is unchanged. With two
  names and a registry that loads, the call returns normally and the saved registry has:
  for each named player that was absent the nine player keys, each 0, every other player
  entry as before; for the team the given list as its roster (with the nine team keys,
  each 0, as its stats if the team is new, its old stats otherwise), every other team as
  before.
\<close>

theorem upsert_team_two_players:
  "(snd (upsert_team s team_name ps)
      = Inl (ValueError ''Teams must have exactly 2 players for 2v2.'') \<longleftrightarrow> length ps \<noteq> 2)
   \<and> (length ps \<noteq> 2 \<longrightarrow> fst (upsert_team s team_name ps) = s)
   \<and> (length ps = 2 \<and> load_registry s = Inl e \<longrightarrow> upsert_team s team_name ps = (s, Inl e))
   \<and> (length ps = 2 \<and> load_registry s = Inr (players_reg, teams_reg) \<longrightarrow>
        snd (upsert_team s team_name ps) = Inr ()
        \<and> (case load_registry (fst (upsert_team s team_name ps)) of
             Inl e \<Rightarrow> False
           | Inr (players_reg', teams_reg') \<Rightarrow>
               (\<forall>p. map_of players_reg' p =
                      (if p \<in> set ps \<and> p \<notin> fst ` set players_reg
                       then Some [(''points'', 0), (''throws'', 0), (''table_hits'', 0),
                                  (''catches'', 0), (''missed_catches'', 0), (''sinks'', 0),
                                  (''rim_hits'', 0), (''rounds_won'', 0), (''series_won'', 0)]
                       else map_of players_reg p))
               \<and> (\<forall>t. map_of teams_reg' t =
                      (if t = team_name
                       then Some \<lparr>lifetime_stats =
                                   (case map_of teams_reg team_name of
                                      None \<Rightarrow>
                                        [(''total_points'', 0), (''total_throws'', 0),
                                         (''total_table_hits'', 0), (''total_catches'', 0),
                                         (''total_missed_catches'', 0), (''total_sinks'', 0),
                                         (''total_rim_hits'', 0), (''total_rounds_won'', 0),
                                         (''total_series_won'', 0)]
                                    | Some e \<Rightarrow> lifetime_stats e),
                                  players = ps\<rparr>
                       else map_of teams_reg t))))"
proof (intro conjI)
  show "snd (upsert_team s team_name ps)
      = Inl (ValueError ''Teams must have exactly 2 players for 2v2.'') \<longleftrightarrow> length ps \<noteq> 2"
    by (cases "load_registry s")
      (auto simp: upsert_team_def load_registry_def load_json_def Let_def
        split: sum.splits json_file.splits)
  show "length ps \<noteq> 2 \<longrightarrow> fst (upsert_team s team_name ps) = s"
    by (simp add: upsert_team_def)
  show "length ps = 2 \<and> load_registry s = Inl e \<longrightarrow> upsert_team s team_name ps = (s, Inl e)"
    by (simp add: upsert_team_def)
  show "length ps = 2 \<and> load_registry s = Inr (players_reg, teams_reg) \<longrightarrow>
        snd (upsert_team s team_name ps) = Inr ()
        \<and> (case load_registry (fst (upsert_team s team_name ps)) of
             Inl e \<Rightarrow> False
           | Inr (players_reg', teams_reg') \<Rightarrow>
               (\<forall>p. map_of players_reg' p =
                      (if p \<in> set ps \<and> p \<notin> fst ` set players_reg
                       then Some [(''points'', 0), (''throws'', 0), (''table_hits'', 0),
                                  (''catches'', 0), (''missed_catches'', 0), (''sinks'', 0),
                                  (''rim_hits'', 0), (''rounds_won'', 0), (''series_won'', 0)]
                       else map_of players_reg p))
               \<and> (\<forall>t. map_of teams_reg' t =
                      (if t = team_name
                       then Some \<lparr>lifetime_stats =
                                   (case map_of teams_reg team_name of
                                      None \<Rightarrow>
                                        [(''total_points'', 0), (''total_throws'', 0),
                                         (''total_table_hits'', 0), (''total_catches'', 0),
                                         (''total_missed_catches'', 0), (''total_sinks'', 0),
                                         (''total_rim_hits'', 0), (''total_rounds_won'', 0),
                                         (''total_series_won'', 0)]
                                    | Some e \<Rightarrow> lifetime_stats e),
                                  players = ps\<rparr>
                       else map_of teams_reg t)))"
    by (auto simp: upsert_team_def Let_def map_of_ensure_players update_conv'
        default_player_stats_def [symmetric] default_team_stats_def [symmetric]
        split: option.splits)
qed

text \<open>
  The claim as it was stated fails: with two names and a players file that does not
  parse, \<open>upsert_team\<close> raises the \<open>json.JSONDecodeError\<close> of the load, which is a
  \<open>ValueError\<close>, although the list has exactly two elements.
\<close>

theorem upsert_team_value_error_with_two_names:
  "upsert_team \<lparr>registry_dir = True, players_file = Unparsable, teams_file = Absent\<rparr>
       ''Aces'' [''Ana'', ''Bo'']
     = (\<lparr>registry_dir = True, players_file = Unparsable, teams_file = Absent\<rparr>,
        Inl JSONDecodeError)
   \<and> is_ValueError JSONDecodeError
   \<and> \<not> ((\<exists>e. snd (upsert_team
                      \<lparr>registry_dir = True, players_file = Unparsable, teams_file = Absent\<rparr>
                      ''Aces'' [''Ana'', ''Bo'']) = Inl e \<and> is_ValueError e)
          \<longleftrightarrow> length [''Ana'', ''Bo''] \<noteq> 2)"
  by (simp add: upsert_team_def load_registry_def load_json_def)

subsection \<open>Cold start\<close>

text \<open>
  Claim C9. A registry file that does not exist reads as the empty mapping: with both
  files missing \<open>load_registry\<close> returns two empty mappings, and with one of them missing
  the empty mapping for that one. From such a cold start \<open>list_team_names\<close>,
  \<open>delete_team\<close>, \<open>upsert_team\<close> and \<open>update_registry_from_totals\<close> return normally.
\<close>

theorem cold_start_registry:
  "(players_file s = Absent \<and> teams_file s = Absent \<longrightarrow>
      load_registry s = Inr ([], [])
      \<and> list_team_names s = Inr []
      \<and> delete_team s team_name = (s, Inr False)
      \<and> snd (upsert_team s team_name [p1, p2]) = Inr ()
      \<and> snd (update_registry_from_totals s pt tt ow) = Inr (int (length pt), int (length tt)))
   \<and> (players_file s = Absent \<and> teams_file s = Json teams_reg \<longrightarrow>
        load_registry s = Inr ([], teams_reg))
   \<and> (players_file s = Json players_reg \<and> teams_file s = Absent \<longrightarrow>
        load_registry s = Inr (players_reg, []))"
proof -
  have cold: "load_registry s = Inr ([], [])" if "players_file s = Absent" "teams_file s = Absent"
    using that by (simp add: load_registry_def load_json_def)
  show ?thesis
  proof (intro conjI impI)
    assume a: "players_file s = Absent \<and> teams_file s = Absent"
    then have l: "load_registry s = Inr ([], [])" using cold by blast
    show "load_registry s = Inr ([], [])" by (rule l)
    show "list_team_names s = Inr []" using l by (simp add: list_team_names_def)
    show "delete_team s team_name = (s, Inr False)" using l by (simp add: delete_team_def)
    show "snd (upsert_team s team_name [p1, p2]) = Inr ()"
      using l by (simp add: upsert_team_def Let_def)
    show "snd (update_registry_from_totals s pt tt ow) = Inr (int (length pt), int (length tt))"
      using l by (simp add: update_registry_from_totals_loaded)
  next
    assume "players_file s = Absent \<and> teams_file s = Json teams_reg"
    then show "load_registry s = Inr ([], teams_reg)"
      by (simp add: load_registry_def load_json_def)
  next
    assume "players_file s = Json players_reg \<and> teams_file s = Absent"
    then show "load_registry s = Inr (players_reg, [])"
      by (simp add: load_registry_def load_json_def)
  qed
qed


theorem rosters_untouched_by_totals_witness:
  "load_registry \<lparr>registry_dir = True, players_file = Json [],
       teams_file = Json [(''Aces'', \<lparr>lifetime_stats = default_team_stats,
                                      players = [''Ana'', ''Bo'']\<rparr>)]\<rparr>
     = Inr ([], [(''Aces'', \<lparr>lifetime_stats = default_team_stats, players = [''Ana'', ''Bo'']\<rparr>)])
   \<and> (case load_registry (fst (update_registry_from_totals
          \<lparr>registry_dir = True, players_file = Json [],
            teams_file = Json [(''Aces'', \<lparr>lifetime_stats = default_team_stats,
                                           players = [''Ana'', ''Bo'']\<rparr>)]\<rparr>
          [] [(''Aces'', [(''total_points'', 5)]), (''Kings'', [(''total_points'', 2)])] True)) of
        Inl e \<Rightarrow> False
      | Inr (players_reg', teams_reg') \<Rightarrow>
          map_option players (map_of teams_reg' ''Aces'') = Some [''Ana'', ''Bo''])
   \<and> (case load_registry (fst (update_registry_from_totals
          \<lparr>registry_dir = True, players_file = Json [],
            teams_file = Json [(''Aces'', \<lparr>lifetime_stats = default_team_stats,
                                           players = [''Ana'', ''Bo'']\<rparr>)]\<rparr>
          [] [(''Aces'', [(''total_points'', 5)]), (''Kings'', [(''total_points'', 2)])] False)) of
        Inl e \<Rightarrow> False
      | Inr (players_reg', teams_reg') \<Rightarrow>
          map_option players (map_of teams_reg' ''Kings'') = Some [])
   \<and> load_registry \<lparr>registry_dir = True, players_file = Json [], teams_file = Unparsable\<rparr>
        = Inl JSONDecodeError
   \<and> teams_file (fst (update_registry_from_totals
          \<lparr>registry_dir = True, players_file = Json [], teams_file = Unparsable\<rparr>
          [] [(''Aces'', [(''total_points'', 5)])] True)) = Unparsable"
proof -
  have with_overwrite:
    "update_registry_from_totals
       \<lparr>registry_dir = True, players_file = Json [],
         teams_file = Json [(''Aces'', \<lparr>lifetime_stats = default_team_stats,
                                        players = [''Ana'', ''Bo'']\<rparr>)]\<rparr>
       [] [(''Aces'', [(''total_points'', 5)]), (''Kings'', [(''total_points'', 2)])] True
     = (\<lparr>registry_dir = True, players_file = Json [],
         teams_file = Json
           [(''Aces'', \<lparr>lifetime_stats = AList.update ''total_points'' 5 default_team_stats,
                         players = [''Ana'', ''Bo'']\<rparr>),
            (''Kings'', \<lparr>lifetime_stats = AList.update ''total_points'' 2 default_team_stats,
                          players = []\<rparr>)]\<rparr>,
        Inr (0, 2))"
    by code_simp
  have without_overwrite:
    "update_registry_from_totals
       \<lparr>registry_dir = True, players_file = Json [],
         teams_file = Json [(''Aces'', \<lparr>lifetime_stats = default_team_stats,
                                        players = [''Ana'', ''Bo'']\<rparr>)]\<rparr>
       [] [(''Aces'', [(''total_points'', 5)]), (''Kings'', [(''total_points'', 2)])] False
     = (\<lparr>registry_dir = True, players_file = Json [],
         teams_file = Json
           [(''Aces'', \<lparr>lifetime_stats =
                           AList.update ''total_points''
                             (dict_get default_team_stats ''total_points'' 0 + 5)
                             default_team_stats,
                         players = [''Ana'', ''Bo'']\<rparr>),
            (''Kings'', \<lparr>lifetime_stats =
                            AList.update ''total_points''
                              (dict_get default_team_stats ''total_points'' 0 + 2)
                              default_team_stats,
                          players = []\<rparr>)]\<rparr>,
        Inr (0, 2))"
    by code_simp
  have unparsable:
    "update_registry_from_totals
       \<lparr>registry_dir = True, players_file = Json [], teams_file = Unparsable\<rparr>
       [] [(''Aces'', [(''total_points'', 5)])] True
     = (\<lparr>registry_dir = True, players_file = Json [], teams_file = Unparsable\<rparr>,
        Inl JSONDecodeError)"
    by code_simp
  show ?thesis
    using rosters_untouched_by_totals [where
            s = "\<lparr>registry_dir = True, players_file = Json [],
              teams_file = Json [(''Aces'', \<lparr>lifetime_stats = default_team_stats,
                                             players = [''Ana'', ''Bo'']\<rparr>)]\<rparr>"
            and players_reg = "[]"
            and teams_reg = "[(''Aces'', \<lparr>lifetime_stats = default_team_stats,
                                          players = [''Ana'', ''Bo'']\<rparr>)]"
            and pt = "[]"
            and tt = "[(''Aces'', [(''total_points'', 5)]), (''Kings'', [(''total_points'', 2)])]"
            and ow = True and t = "''Aces''"]
    unfolding with_overwrite without_overwrite unparsable
    by (simp add: load_registry_def load_json_def)
qed

theorem upsert_team_two_players_witness:
  "length [''Ana''] \<noteq> 2
   \<and> upsert_team \<lparr>registry_dir = False, players_file = Absent, teams_file = Absent\<rparr>
        ''Aces'' [''Ana'']
       = (\<lparr>registry_dir = False, players_file = Absent, teams_file = Absent\<rparr>,
          Inl (ValueError ''Teams must have exactly 2 players for 2v2.''))
   \<and> length [''Ana'', ''Bo''] = 2
   \<and> load_registry \<lparr>registry_dir = True, players_file = Absent, teams_file = Unparsable\<rparr>
       = Inl JSONDecodeError
   \<and> upsert_team \<lparr>registry_dir = True, players_file = Absent, teams_file = Unparsable\<rparr>
        ''Aces'' [''Ana'', ''Bo'']
       = (\<lparr>registry_dir = True, players_file = Absent, teams_file = Unparsable\<rparr>,
          Inl JSONDecodeError)
   \<and> load_registry \<lparr>registry_dir = False, players_file = Absent, teams_file = Absent\<rparr>
       = Inr ([], [])
   \<and> upsert_team \<lparr>registry_dir = False, players_file = Absent, teams_file = Absent\<rparr>
        ''Aces'' [''Ana'', ''Bo'']
       = (\<lparr>registry_dir = True,
           players_file = Json
             [(''Ana'', [(''points'', 0), (''throws'', 0), (''table_hits'', 0),
                         (''catches'', 0), (''missed_catches'', 0), (''sinks'', 0),
                         (''rim_hits'', 0), (''rounds_won'', 0), (''series_won'', 0)]),
              (''Bo'', [(''points'', 0), (''throws'', 0), (''table_hits'', 0),
                        (''catches'', 0), (''missed_catches'', 0), (''sinks'', 0),
                        (''rim_hits'', 0), (''rounds_won'', 0), (''series_won'', 0)])],
           teams_file = Json
             [(''Aces'', \<lparr>lifetime_stats =
                            [(''total_points'', 0), (''total_throws'', 0),
                             (''total_table_hits'', 0), (''total_catches'', 0),
                             (''total_missed_catches'', 0), (''total_sinks'', 0),
                             (''total_rim_hits'', 0), (''total_rounds_won'', 0),
                             (''total_series_won'', 0)],
                          players = [''Ana'', ''Bo'']\<rparr>)]\<rparr>,
          Inr ())"
proof -
  have short: "upsert_team \<lparr>registry_dir = False, players_file = Absent, teams_file = Absent\<rparr>
        ''Aces'' [''Ana'']
       = (\<lparr>registry_dir = False, players_file = Absent, teams_file = Absent\<rparr>,
          Inl (ValueError ''Teams must have exactly 2 players for 2v2.''))"
    by code_simp
  have corrupt: "upsert_team \<lparr>registry_dir = True, players_file = Absent, teams_file = Unparsable\<rparr>
        ''Aces'' [''Ana'', ''Bo'']
       = (\<lparr>registry_dir = True, players_file = Absent, teams_file = Unparsable\<rparr>,
          Inl JSONDecodeError)"
    by code_simp
  have cold: "upsert_team \<lparr>registry_dir = False, players_file = Absent, teams_file = Absent\<rparr>
        ''Aces'' [''Ana'', ''Bo'']
       = (\<lparr>registry_dir = True,
           players_file = Json
             [(''Ana'', [(''points'', 0), (''throws'', 0), (''table_hits'', 0),
                         (''catches'', 0), (''missed_catches'', 0), (''sinks'', 0),
                         (''rim_hits'', 0), (''rounds_won'', 0), (''series_won'', 0)]),
              (''Bo'', [(''points'', 0), (''throws'', 0), (''table_hits'', 0),
                        (''catches'', 0), (''missed_catches'', 0), (''sinks'', 0),
                        (''rim_hits'', 0), (''rounds_won'', 0), (''series_won'', 0)])],
           teams_file = Json
             [(''Aces'', \<lparr>lifetime_stats =
                            [(''total_points'', 0), (''total_throws'', 0),
                             (''total_table_hits'', 0), (''total_catches'', 0),
                             (''total_missed_catches'', 0), (''total_sinks'', 0),
                             (''total_rim_hits'', 0), (''total_rounds_won'', 0),
                             (''total_series_won'', 0)],
                          players = [''Ana'', ''Bo'']\<rparr>)]\<rparr>,
          Inr ())"
    by code_simp
  show ?thesis
    using upsert_team_two_players [where
            s = "\<lparr>registry_dir = False, players_file = Absent, teams_file = Absent\<rparr>"
            and team_name = "''Aces''" and ps = "[''Ana'']"]
          upsert_team_two_players [where
            s = "\<lparr>registry_dir = True, players_file = Absent, teams_file = Unparsable\<rparr>"
            and team_name = "''Aces''" and ps = "[''Ana'', ''Bo'']" and e = JSONDecodeError]
          upsert_team_two_players [where
            s = "\<lparr>registry_dir = False, players_file = Absent, teams_file = Absent\<rparr>"
            and team_name = "''Aces''" and ps = "[''Ana'', ''Bo'']"
            and players_reg = "[]" and teams_reg = "[]"]
    unfolding short corrupt cold
    by (simp add: load_registry_def load_json_def)
qed

theorem cold_start_registry_witness:
  "players_file \<lparr>registry_dir = False, players_file = Absent, teams_file = Absent\<rparr> = Absent
   \<and> teams_file \<lparr>registry_dir = False, players_file = Absent, teams_file = Absent\<rparr> = Absent
   \<and> load_registry \<lparr>registry_dir = False, players_file = Absent, teams_file = Absent\<rparr>
        = Inr ([], [])
   \<and> list_team_names \<lparr>registry_dir = False, players_file = Absent, teams_file = Absent\<rparr>
        = Inr []
   \<and> snd (update_registry_from_totals
             \<lparr>registry_dir = False, players_file = Absent, teams_file = Absent\<rparr>
             [(''Ana'', [(''points'', 14), (''sinks'', 3)])] [] True) = Inr (1, 0)
   \<and> load_registry \<lparr>registry_dir = True, players_file = Absent,
                      teams_file = Json [(''Aces'', \<lparr>lifetime_stats = default_team_stats,
                                                     players = [''Ana'', ''Bo'']\<rparr>)]\<rparr>
        = Inr ([], [(''Aces'', \<lparr>lifetime_stats = default_team_stats, players = [''Ana'', ''Bo'']\<rparr>)])
   \<and> load_registry \<lparr>registry_dir = True, players_file = Json [(''Ana'', default_player_stats)],
                      teams_file = Absent\<rparr>
        = Inr ([(''Ana'', default_player_stats)], [])"
  using cold_start_registry [where
          s = "\<lparr>registry_dir = False, players_file = Absent, teams_file = Absent\<rparr>"
          and pt = "[(''Ana'', [(''points'', 14), (''sinks'', 3)])]" and tt = "[]" and ow = True]
        cold_start_registry [where
          s = "\<lparr>registry_dir = True, players_file = Absent,
            teams_file = Json [(''Aces'', \<lparr>lifetime_stats = default_team_stats,
                                           players = [''Ana'', ''Bo'']\<rparr>)]\<rparr>"
          and teams_reg = "[(''Aces'', \<lparr>lifetime_stats = default_team_stats,
                                        players = [''Ana'', ''Bo'']\<rparr>)]"]
        cold_start_registry [where
          s = "\<lparr>registry_dir = True, players_file = Json [(''Ana'', default_player_stats)],
            teams_file = Absent\<rparr>"
          and players_reg = "[(''Ana'', default_player_stats)]"]
  by simp

theorem overwrite_reconciliation_fixed_point_witness:
  "update_registry_from_totals
     \<lparr>registry_dir = False, players_file = Absent, teams_file = Absent\<rparr>
     [(''Ana'', [(''points'', 14), (''sinks'', 3)])] [(''Aces'', [(''total_points'', 14)])] True
    = (\<lparr>registry_dir = True,
        players_file = Json [(''Ana'', [(''points'', 14), (''throws'', 0), (''table_hits'', 0),
           (''catches'', 0), (''missed_catches'', 0), (''sinks'', 3), (''rim_hits'', 0),
           (''rounds_won'', 0), (''series_won'', 0)])],
        teams_file = Json [(''Aces'', \<lparr>lifetime_stats = [(''total_points'', 14),
           (''total_throws'', 0), (''total_table_hits'', 0), (''total_catches'', 0),
           (''total_missed_catches'', 0), (''total_sinks'', 0), (''total_rim_hits'', 0),
           (''total_rounds_won'', 0), (''total_series_won'', 0)], players = []\<rparr>)]\<rparr>,
       Inr (1, 1))
   \<and> update_registry_from_totals
     \<lparr>registry_dir = True,
        players_file = Json [(''Ana'', [(''points'', 14), (''throws'', 0), (''table_hits'', 0),
           (''catches'', 0), (''missed_catches'', 0), (''sinks'', 3), (''rim_hits'', 0),
           (''rounds_won'', 0), (''series_won'', 0)])],
        teams_file = Json [(''Aces'', \<lparr>lifetime_stats = [(''total_points'', 14),
           (''total_throws'', 0), (''total_table_hits'', 0), (''total_catches'', 0),
           (''total_missed_catches'', 0), (''total_sinks'', 0), (''total_rim_hits'', 0),
           (''total_rounds_won'', 0), (''total_series_won'', 0)], players = []\<rparr>)]\<rparr>
     [(''Ana'', [(''points'', 14), (''sinks'', 3)])] [(''Aces'', [(''total_points'', 14)])] True
    = (\<lparr>registry_dir = True,
        players_file = Json [(''Ana'', [(''points'', 14), (''throws'', 0), (''table_hits'', 0),
           (''catches'', 0), (''missed_catches'', 0), (''sinks'', 3), (''rim_hits'', 0),
           (''rounds_won'', 0), (''series_won'', 0)])],
        teams_file = Json [(''Aces'', \<lparr>lifetime_stats = [(''total_points'', 14),
           (''total_throws'', 0), (''total_table_hits'', 0), (''total_catches'', 0),
           (''total_missed_catches'', 0), (''total_sinks'', 0), (''total_rim_hits'', 0),
           (''total_rounds_won'', 0), (''total_series_won'', 0)], players = []\<rparr>)]\<rparr>,
       Inr (1, 1))"
proof -
  have first: "update_registry_from_totals
     \<lparr>registry_dir = False, players_file = Absent, teams_file = Absent\<rparr>
     [(''Ana'', [(''points'', 14), (''sinks'', 3)])] [(''Aces'', [(''total_points'', 14)])] True
    = (\<lparr>registry_dir = True,
        players_file = Json [(''Ana'', [(''points'', 14), (''throws'', 0), (''table_hits'', 0),
           (''catches'', 0), (''missed_catches'', 0), (''sinks'', 3), (''rim_hits'', 0),
           (''rounds_won'', 0), (''series_won'', 0)])],
        teams_file = Json [(''Aces'', \<lparr>lifetime_stats = [(''total_points'', 14),
           (''total_throws'', 0), (''total_table_hits'', 0), (''total_catches'', 0),
           (''total_missed_catches'', 0), (''total_sinks'', 0), (''total_rim_hits'', 0),
           (''total_rounds_won'', 0), (''total_series_won'', 0)], players = []\<rparr>)]\<rparr>,
       Inr (1, 1))"
    by code_simp
  show ?thesis
    using overwrite_reconciliation_fixed_point [of
            "\<lparr>registry_dir = False, players_file = Absent, teams_file = Absent\<rparr>"
            "[(''Ana'', [(''points'', 14), (''sinks'', 3)])]" "[(''Aces'', [(''total_points'', 14)])]"]
    unfolding first by simp
qed


subsection \<open>The ISO calendar\<close>

lemma div_step:
  fixes y k :: int
  assumes "0 < k"
  shows "y div k - (y - 1) div k = (if y mod k = 0 then 1 else 0)"
proof (cases "y mod k = 0")
  case True
  have "k * (y div k) = y" using True mult_div_mod_eq [of k y] by simp
  then have "y - 1 = k * (y div k - 1) + (k - 1)" by (simp add: algebra_simps)
  then have "(y - 1) div k = y div k - 1"
    using assms int_div_pos_eq [of "y - 1" k "y div k - 1" "k - 1"] by simp
  with True show ?thesis by simp
next
  case False
  have "0 \<le> y mod k" using assms by simp
  then have pos: "0 < y mod k" using False by linarith
  have lt: "y mod k < k" using assms by simp
  have "y - 1 = k * (y div k) + (y mod k - 1)" by (simp add: algebra_simps)
  then have "(y - 1) div k = y div k"
    using pos lt int_div_pos_eq [of "y - 1" k "y div k" "y mod k - 1"] by simp
  with False show ?thesis by simp
qed

lemma mod_0_of_multiple:
  fixes y :: int
  assumes "y mod a = 0" and "b dvd a"
  shows "y mod b = 0"
proof -
  from assms(1) have "a dvd y" by (simp add: mod_eq_0_iff_dvd)
  with assms(2) have "b dvd y" by (rule dvd_trans)
  then show ?thesis by (simp add: mod_eq_0_iff_dvd)
qed

lemma mod_400_100: "(y::int) mod 400 = 0 \<Longrightarrow> y mod 100 = 0"
  by (erule mod_0_of_multiple) simp

lemma mod_100_4: "(y::int) mod 100 = 0 \<Longrightarrow> y mod 4 = 0"
  by (erule mod_0_of_multiple) simp

lemma dby_succ: "days_before_year (y + 1) = y * 365 + y div 4 - y div 100 + y div 400"
  by (simp add: days_before_year_def)

lemma dby_self:
  "days_before_year y = (y - 1) * 365 + (y - 1) div 4 - (y - 1) div 100 + (y - 1) div 400"
  unfolding days_before_year_def Let_def by (rule refl)



lemma year_length_linear:
  fixes y :: int
  assumes "a4 - b4 = e4" "a100 - b100 = e100" "a400 - b400 = e400"
  shows "(y * 365 + a4 - a100 + a400) - ((y - 1) * 365 + b4 - b100 + b400)
           = 365 + e4 - e100 + e400"
  using assms by (simp add: algebra_simps)

lemma days_before_next_year:
  "days_before_year (y + 1) - days_before_year y = (if is_leap y then 366 else 365)"
proof -
  have d4: "y div 4 - (y - 1) div 4 = (if y mod 4 = 0 then 1 else 0)" by (rule div_step) simp
  have d100: "y div 100 - (y - 1) div 100 = (if y mod 100 = 0 then 1 else 0)"
    by (rule div_step) simp
  have d400: "y div 400 - (y - 1) div 400 = (if y mod 400 = 0 then 1 else 0)"
    by (rule div_step) simp
  have diff: "days_before_year (y + 1) - days_before_year y
          = 365 + (if y mod 4 = 0 then 1 else 0) - (if y mod 100 = 0 then 1 else 0)
              + (if y mod 400 = 0 then 1 else 0)"
    by (simp only: dby_succ dby_self [of y]) (rule year_length_linear [OF d4 d100 d400])
  consider (c400) "y mod 400 = 0" | (c100) "y mod 400 \<noteq> 0" "y mod 100 = 0"
    | (c4) "y mod 100 \<noteq> 0" "y mod 4 = 0" | (c1) "y mod 4 \<noteq> 0"
    by blast
  then show ?thesis
  proof cases
    case c400
    have m100: "y mod 100 = 0" using c400 by (rule mod_400_100)
    have m4: "y mod 4 = 0" using m100 by (rule mod_100_4)
    show ?thesis unfolding diff is_leap_def using c400 m100 m4
      by (simp only: if_True if_False simp_thms; simp)
  next
    case c100
    have m: "y mod 4 = 0" using c100(2) by (rule mod_100_4)
    show ?thesis unfolding diff is_leap_def using c100 m
      by (simp only: if_True if_False simp_thms; simp)
  next
    case c4
    have m: "y mod 400 \<noteq> 0" using c4(1) mod_400_100 [of y] by (rule contrapos_nn)
    show ?thesis unfolding diff is_leap_def using c4 m
      by (simp only: if_True if_False simp_thms; simp)
  next
    case c1
    have m100: "y mod 100 \<noteq> 0" using c1 mod_100_4 [of y] by (rule contrapos_nn)
    have m400: "y mod 400 \<noteq> 0" using m100 mod_400_100 [of y] by (rule contrapos_nn)
    show ?thesis unfolding diff is_leap_def using c1 m100 m400
      by (simp only: if_True if_False simp_thms; simp)
  qed
qed


lemma monday_mod: "(n - (n + 6) mod 7) mod 7 = (1::int)"
proof -
  have "(n - (n + 6) mod 7) mod 7 = (n - (n + 6)) mod 7" by (rule mod_diff_right_eq)
  also have "\<dots> = 1" by simp
  finally show ?thesis .
qed

lemma week1_mod: "(x + 4 - (x + 3) mod 7) mod 7 = (1::int)"
proof -
  have "(x + 4 - (x + 3) mod 7) mod 7 = (x + 4 - (x + 3)) mod 7" by (rule mod_diff_right_eq)
  also have "\<dots> = 1" by simp
  finally show ?thesis .
qed

lemma div7_shift:
  fixes d r :: int
  assumes "d mod 7 = 0" "0 \<le> r" "r < 7"
  shows "(d + r) div 7 = d div 7"
proof -
  have "7 * (d div 7) = d" using assms(1) mult_div_mod_eq [of 7 d] by simp
  then have "d + r = 7 * (d div 7) + r" by simp
  then show ?thesis using assms(2,3) by (rule int_div_pos_eq)
qed

lemma mod7_shift:
  fixes d r :: int
  assumes "d mod 7 = 0" "0 \<le> r" "r < 7"
  shows "(d + r) mod 7 = r"
proof -
  have "7 * (d div 7) = d" using assms(1) mult_div_mod_eq [of 7 d] by simp
  then have "d + r = 7 * (d div 7) + r" by simp
  then show ?thesis using assms(2,3) by (rule int_mod_pos_eq)
qed

lemma week_number_key:
  fixes n x :: int
  shows "(n - (x + 4 - (x + 3) mod 7)) div 7 = (n - (n + 6) mod 7 + 3 - x - 1) div 7"
    and "(n - (x + 4 - (x + 3) mod 7)) mod 7 = (n + 6) mod 7"
proof -
  define w where "w = (n + 6) mod 7"
  define s where "s = (x + 3) mod 7"
  define M where "M = n - w"
  define W where "W = x + 4 - s"
  have w: "0 \<le> w" "w < 7" by (simp_all add: w_def)
  have s: "0 \<le> s" "s < 7" by (simp_all add: s_def)
  have s': "0 \<le> 6 - s" "6 - s < 7" using s by linarith+
  have "(M - W) mod 7 = (M mod 7 - W mod 7) mod 7" by (simp add: mod_diff_eq)
  moreover have "M mod 7 = 1" unfolding M_def w_def by (rule monday_mod)
  moreover have "W mod 7 = 1" unfolding W_def s_def by (rule week1_mod)
  ultimately have d: "(M - W) mod 7 = 0" by simp
  have e1: "n - W = (M - W) + w" by (simp add: M_def)
  have e2: "n - w + 3 - x - 1 = (M - W) + (6 - s)" by (simp add: M_def W_def)
  have "(n - W) div 7 = (M - W) div 7" unfolding e1 using d w by (rule div7_shift)
  moreover have "(n - w + 3 - x - 1) div 7 = (M - W) div 7"
    unfolding e2 using d s' by (rule div7_shift)
  ultimately show "(n - (x + 4 - (x + 3) mod 7)) div 7 = (n - (n + 6) mod 7 + 3 - x - 1) div 7"
    unfolding W_def s_def w_def by simp
  have "(n - W) mod 7 = w" unfolding e1 using d w by (rule mod7_shift)
  then show "(n - (x + 4 - (x + 3) mod 7)) mod 7 = (n + 6) mod 7"
    unfolding W_def s_def w_def .
qed

lemma week1monday_closed:
  fixes x :: int
  shows "(if (x + 1 + 6) mod 7 > 3 then x + 1 - (x + 1 + 6) mod 7 + 7 else x + 1 - (x + 1 + 6) mod 7)
           = x + 4 - (x + 3) mod 7"
proof -
  define r where "r = x mod 7"
  have r: "0 \<le> r" "r < 7" by (simp_all add: r_def)
  have a: "(x + 1 + 6) mod 7 = r"
  proof -
    have "(x + 1 + 6) mod 7 = (x + 7) mod 7" by simp
    also have "\<dots> = x mod 7" by (simp only: mod_add_self2)
    finally show ?thesis by (simp add: r_def)
  qed
  have b: "(x + 3) mod 7 = (r + 3) mod 7" unfolding r_def by (simp add: mod_add_left_eq)
  show ?thesis
  proof (cases "r > 3")
    case True
    have "r + 3 = 7 * 1 + (r - 4)" by simp
    then have "(r + 3) mod 7 = r - 4" using True r by (intro int_mod_pos_eq [of "r + 3" 7 1 "r - 4"]) simp_all
    then show ?thesis unfolding a b using True by simp
  next
    case False
    then have "(r + 3) mod 7 = r + 3" using r by simp
    then show ?thesis unfolding a b using False by simp
  qed
qed

lemma isoweek1monday_closed:
  "isoweek1monday y = days_before_year y + 4 - (days_before_year y + 3) mod 7"
proof -
  have "ymd2ord y 1 1 = days_before_year y + 1"
    by (simp add: ymd2ord_def days_before_month_def)
  then show ?thesis
    unfolding isoweek1monday_def Let_def by (simp only: week1monday_closed)
qed


lemma day_of_year_range:
  assumes "1 \<le> m" "m \<le> 12" "1 \<le> d" "d \<le> days_in_month y m"
  shows "1 \<le> days_before_month y m + d"
    and "days_before_month y m + d \<le> (if is_leap y then 366 else 365)"
proof -
  from assms(1,2) have m: "m = 1 \<or> m = 2 \<or> m = 3 \<or> m = 4 \<or> m = 5 \<or> m = 6 \<or> m = 7 \<or> m = 8
      \<or> m = 9 \<or> m = 10 \<or> m = 11 \<or> m = 12" by arith
  from m show "1 \<le> days_before_month y m + d"
    using assms(3) by (elim disjE) (simp_all add: days_before_month_def)
  from m show "days_before_month y m + d \<le> (if is_leap y then 366 else 365)"
    using assms(4)
    by (elim disjE) (simp_all add: days_before_month_def days_in_month_def split: if_splits)
qed

lemma fromisoformat_valid:
  assumes "ymd_shape s" "fromisoformat other_formats s = Inr dt"
  shows "1 \<le> year dt" "year dt \<le> 9999" "1 \<le> month dt" "month dt \<le> 12" "1 \<le> day dt"
    "day dt \<le> days_in_month (year dt) (month dt)"
  using assms
  by (auto simp: fromisoformat_def split: if_splits option.splits)

lemma ordinal_range:
  assumes "1 \<le> month dt" "month dt \<le> 12" "1 \<le> day dt"
    "day dt \<le> days_in_month (year dt) (month dt)"
  shows "days_before_year (year dt) < toordinal dt"
    and "toordinal dt \<le> days_before_year (year dt + 1)"
proof -
  define k where "k = days_before_month (year dt) (month dt) + day dt"
  define a where "a = days_before_year (year dt)"
  define b where "b = days_before_year (year dt + 1)"
  define L :: int where "L = (if is_leap (year dt) then 366 else 365)"
  have k: "1 \<le> k" "k \<le> L"
    unfolding k_def L_def using day_of_year_range [OF assms] by blast+
  have ba: "b - a = L" unfolding a_def b_def L_def by (rule days_before_next_year)
  have n: "toordinal dt = a + k" by (simp add: toordinal_def ymd2ord_def a_def k_def)
  show "days_before_year (year dt) < toordinal dt"
    unfolding n a_def [symmetric] using k by linarith
  show "toordinal dt \<le> days_before_year (year dt + 1)"
    unfolding n b_def [symmetric] using k ba by linarith
qed


lemma thursday_bounds:
  fixes n :: int
  shows "n - (n + 6) mod 7 + 3 \<le> n + 3" and "n - 3 \<le> n - (n + 6) mod 7 + 3"
proof -
  define w where "w = (n + 6) mod 7"
  have w: "0 \<le> w" "w < 7" by (simp_all add: w_def)
  show "n - (n + 6) mod 7 + 3 \<le> n + 3" unfolding w_def [symmetric] using w by linarith
  show "n - 3 \<le> n - (n + 6) mod 7 + 3" unfolding w_def [symmetric] using w by linarith
qed

lemma div7_neg_iff: "((x::int) div 7 < 0) = (x < 0)"
  by (rule pos_imp_zdiv_neg_iff) simp

lemma div7_nonneg_iff: "(0 \<le> (x::int) div 7) = (0 \<le> x)"
  by (rule pos_imp_zdiv_nonneg_iff) simp

lemma div7_ge_52: "364 \<le> (x::int) \<Longrightarrow> 52 \<le> x div 7"
proof -
  assume "364 \<le> x"
  then have "364 div 7 \<le> x div 7" by (rule zdiv_mono1) simp
  then show ?thesis by simp
qed

lemma div7_le_52: "(x::int) \<le> 365 \<Longrightarrow> x div 7 \<le> 52"
proof -
  assume "x \<le> 365"
  then have "x div 7 \<le> 365 div 7" by (rule zdiv_mono1) simp
  then show ?thesis by simp
qed

lemma isocalendar_year_week:
  assumes valid: "1 \<le> month dt" "month dt \<le> 12" "1 \<le> day dt"
    "day dt \<le> days_in_month (year dt) (month dt)"
  shows "isocalendar dt
           = (iso_year_spec dt, iso_week_spec dt, weekday_of_ordinal (toordinal dt) + 1)"
    and "1 \<le> iso_week_spec dt" and "iso_week_spec dt \<le> 53"
proof -
  define y where "y = year dt"
  define n where "n = toordinal dt"
  define a where "a = days_before_year y"
  define b where "b = days_before_year (y + 1)"
  define c where "c = days_before_year (y - 1)"
  define t where "t = n - (n + 6) mod 7 + 3"
  define Wa where "Wa = isoweek1monday y"
  define Wb where "Wb = isoweek1monday (y + 1)"
  define Wc where "Wc = isoweek1monday (y - 1)"
  have an: "a < n" and nb: "n \<le> b"
    unfolding a_def b_def n_def y_def using ordinal_range [OF valid] by blast+
  have ba: "365 \<le> b - a" "b - a \<le> 366"
    unfolding a_def b_def using days_before_next_year [of y] by (simp_all split: if_splits)
  have ac: "365 \<le> a - c" "a - c \<le> 366"
    unfolding a_def c_def using days_before_next_year [of "y - 1"] by (simp_all split: if_splits)
  have tn: "t \<le> n + 3" "n - 3 \<le> t" unfolding t_def by (rule thursday_bounds)+
  have qa: "(n - Wa) div 7 = (t - a - 1) div 7"
    unfolding Wa_def isoweek1monday_closed a_def [symmetric] t_def by (rule week_number_key(1))
  have qb: "(n - Wb) div 7 = (t - b - 1) div 7"
    unfolding Wb_def isoweek1monday_closed b_def [symmetric] t_def by (rule week_number_key(1))
  have qc: "(n - Wc) div 7 = (t - c - 1) div 7"
    unfolding Wc_def isoweek1monday_closed c_def [symmetric] t_def by (rule week_number_key(1))
  have wa: "(n - Wa) mod 7 = (n + 6) mod 7"
    unfolding Wa_def isoweek1monday_closed by (rule week_number_key(2))
  have wc: "(n - Wc) mod 7 = (n + 6) mod 7"
    unfolding Wc_def isoweek1monday_closed by (rule week_number_key(2))
  have c1: "((n - Wa) div 7 < 0) = (t \<le> a)"
    unfolding qa div7_neg_iff by linarith
  have Wbn: "(Wb \<le> n) = (b < t)"
  proof -
    have "(Wb \<le> n) = (0 \<le> n - Wb)" by linarith
    also have "\<dots> = (0 \<le> (n - Wb) div 7)" by (simp only: div7_nonneg_iff)
    also have "\<dots> = (0 \<le> t - b - 1)" unfolding qb by (simp only: div7_nonneg_iff)
    also have "\<dots> = (b < t)" by linarith
    finally show ?thesis .
  qed
  have c2: "(52 \<le> (n - Wa) div 7 \<and> Wb \<le> n) = (b < t)"
  proof (cases "b < t")
    case True
    then have "364 \<le> t - a - 1" using ba by linarith
    then have "52 \<le> (t - a - 1) div 7" by (rule div7_ge_52)
    with True show ?thesis unfolding qa Wbn by simp
  next
    case False
    then show ?thesis unfolding Wbn by simp
  qed
  have iso: "isocalendar dt =
      (if (n - Wa) div 7 < 0 then (y - 1, (n - Wc) div 7 + 1, (n - Wc) mod 7 + 1)
       else if 52 \<le> (n - Wa) div 7 \<and> Wb \<le> n then (y + 1, 1, (n - Wa) mod 7 + 1)
       else (y, (n - Wa) div 7 + 1, (n - Wa) mod 7 + 1))"
    unfolding isocalendar_def Let_def y_def n_def Wa_def Wb_def Wc_def by (rule refl)
  have thu: "thursday_of_week dt = t"
    by (simp add: thursday_of_week_def weekday_of_ordinal_def t_def n_def)
  have yr: "iso_year_spec dt = (if t \<le> a then y - 1 else if b < t then y + 1 else y)"
    unfolding iso_year_spec_def thu Let_def a_def b_def y_def by (rule refl)
  have wk: "iso_week_spec dt = (t - days_before_year (iso_year_spec dt) - 1) div 7 + 1"
    unfolding iso_week_spec_def thu by (rule refl)
  have wd: "weekday_of_ordinal (toordinal dt) + 1 = (n + 6) mod 7 + 1"
    by (simp add: weekday_of_ordinal_def n_def)
  consider (prev) "t \<le> a" | (nxt) "a < t" "b < t" | (same) "a < t" "t \<le> b" by linarith
  then have "isocalendar dt
           = (iso_year_spec dt, iso_week_spec dt, weekday_of_ordinal (toordinal dt) + 1)
        \<and> 1 \<le> iso_week_spec dt \<and> iso_week_spec dt \<le> 53"
  proof cases
    case prev
    have y': "iso_year_spec dt = y - 1" unfolding yr using prev by simp
    have w': "iso_week_spec dt = (t - c - 1) div 7 + 1" unfolding wk y' c_def by (rule refl)
    have "0 \<le> t - c - 1" using prev tn an ac by linarith
    then have lo: "0 \<le> (t - c - 1) div 7" by (simp only: div7_nonneg_iff)
    have "t - c - 1 \<le> 365" using prev ac by linarith
    then have hi: "(t - c - 1) div 7 \<le> 52" by (rule div7_le_52)
    have "isocalendar dt = (y - 1, (t - c - 1) div 7 + 1, (n + 6) mod 7 + 1)"
      unfolding iso c1 qc wc using prev by simp
    then show ?thesis unfolding y' w' wd using lo hi by simp
  next
    case nxt
    have y': "iso_year_spec dt = y + 1" unfolding yr using nxt by simp
    have w': "iso_week_spec dt = (t - b - 1) div 7 + 1" unfolding wk y' b_def by (rule refl)
    have "0 \<le> t - b - 1" "t - b - 1 < 7" using nxt tn nb by linarith+
    then have z: "(t - b - 1) div 7 = 0" by (rule div_pos_pos_trivial)
    have "isocalendar dt = (y + 1, 1, (n + 6) mod 7 + 1)"
      unfolding iso c1 c2 wa using nxt by simp
    then show ?thesis unfolding y' w' wd z by simp
  next
    case same
    have y': "iso_year_spec dt = y" unfolding yr using same by simp
    have w': "iso_week_spec dt = (t - a - 1) div 7 + 1" unfolding wk y' a_def by (rule refl)
    have "0 \<le> t - a - 1" using same by linarith
    then have lo: "0 \<le> (t - a - 1) div 7" by (simp only: div7_nonneg_iff)
    have "t - a - 1 \<le> 365" using same ba by linarith
    then have hi: "(t - a - 1) div 7 \<le> 52" by (rule div7_le_52)
    have n1: "\<not> (n - Wa) div 7 < 0" unfolding c1 using same by simp
    have n2: "\<not> (52 \<le> (n - Wa) div 7 \<and> Wb \<le> n)" unfolding c2 using same by simp
    have "isocalendar dt = (y, (n - Wa) div 7 + 1, (n - Wa) mod 7 + 1)"
      unfolding iso using n1 n2 by (simp only: if_False)
    then have "isocalendar dt = (y, (t - a - 1) div 7 + 1, (n + 6) mod 7 + 1)"
      unfolding qa wa .
    then show ?thesis unfolding y' w' wd using lo hi by simp
  qed
  then show "isocalendar dt
           = (iso_year_spec dt, iso_week_spec dt, weekday_of_ordinal (toordinal dt) + 1)"
    and "1 \<le> iso_week_spec dt" and "iso_week_spec dt \<le> 53"
    by blast+
qed


lemma thursday_of_first_days:
  fixes n :: int
  assumes "1 \<le> n"
  shows "0 < n - (n + 6) mod 7 + 3"
proof (cases "4 \<le> n")
  case True
  then show ?thesis using thursday_bounds(2) [of n] by linarith
next
  case False
  with assms have "n = 1 \<or> n = 2 \<or> n = 3" by linarith
  then show ?thesis by (elim disjE) simp_all
qed

lemma thursday_of_last_days:
  fixes n :: int
  assumes "n \<le> 3652059"
  shows "n - (n + 6) mod 7 + 3 \<le> 3652059"
proof (cases "n \<le> 3652056")
  case True
  then show ?thesis using thursday_bounds(1) [of n] by linarith
next
  case False
  with assms have "n = 3652057 \<or> n = 3652058 \<or> n = 3652059" by linarith
  then show ?thesis by (elim disjE) simp_all
qed

lemma days_before_year_1: "days_before_year 1 = 0"
  by (simp add: days_before_year_def)

lemma days_before_year_10000: "days_before_year 10000 = 3652059"
  by (simp add: days_before_year_def)

lemma iso_year_range:
  assumes valid: "1 \<le> month dt" "month dt \<le> 12" "1 \<le> day dt"
    "day dt \<le> days_in_month (year dt) (month dt)"
    and yr: "1 \<le> year dt" "year dt \<le> 9999"
  shows "1 \<le> iso_year_spec dt" and "iso_year_spec dt \<le> 9999"
proof -
  define n where "n = toordinal dt"
  define t where "t = n - (n + 6) mod 7 + 3"
  have thu: "thursday_of_week dt = t"
    by (simp add: thursday_of_week_def weekday_of_ordinal_def t_def n_def)
  have an: "days_before_year (year dt) < n" and nb: "n \<le> days_before_year (year dt + 1)"
    unfolding n_def using ordinal_range [OF valid] by blast+
  show "1 \<le> iso_year_spec dt"
  proof (cases "year dt = 1")
    case True
    then have "1 \<le> n" using an by (simp add: days_before_year_1)
    then have "0 < t" unfolding t_def by (rule thursday_of_first_days)
    then show ?thesis
      unfolding iso_year_spec_def thu Let_def using True by (simp add: days_before_year_1)
  next
    case False
    then have "2 \<le> year dt" using yr by linarith
    then show ?thesis unfolding iso_year_spec_def Let_def by simp
  qed
  show "iso_year_spec dt \<le> 9999"
  proof (cases "year dt = 9999")
    case True
    then have "n \<le> 3652059" using nb by (simp add: days_before_year_10000)
    then have "t \<le> 3652059" unfolding t_def by (rule thursday_of_last_days)
    then show ?thesis
      unfolding iso_year_spec_def thu Let_def using True by (simp add: days_before_year_10000)
  next
    case False
    then have "year dt \<le> 9998" using yr by linarith
    then show ?thesis unfolding iso_year_spec_def Let_def by simp
  qed
qed

subsection \<open>Decimal notation and the week key\<close>

lemma digits_of_small: "n < 10 \<Longrightarrow> digits_of n = [digit_char n]"
  by simp

lemma digits_of_large:
  "10 \<le> n \<Longrightarrow> digits_of n = digits_of (n div 10) @ [digit_char (n mod 10)]"
  by (subst digits_of.simps) simp

lemma length_digits_1: "n < 10 \<Longrightarrow> length (digits_of n) = 1"
  by (simp add: digits_of_small del: digits_of.simps)

lemma length_digits_2: "10 \<le> n \<Longrightarrow> n < 100 \<Longrightarrow> length (digits_of n) = 2"
proof -
  assume a: "10 \<le> n" "n < 100"
  then have "n div 10 < 10" by simp
  then have "length (digits_of (n div 10)) = 1" by (rule length_digits_1)
  then show ?thesis using a by (simp add: digits_of_large del: digits_of.simps)
qed

lemma length_digits_3: "100 \<le> n \<Longrightarrow> n < 1000 \<Longrightarrow> length (digits_of n) = 3"
proof -
  assume a: "100 \<le> n" "n < 1000"
  then have "10 \<le> n div 10" "n div 10 < 100" by simp_all
  then have "length (digits_of (n div 10)) = 2" by (rule length_digits_2)
  then show ?thesis using a by (simp add: digits_of_large del: digits_of.simps)
qed

lemma length_digits_4: "1000 \<le> n \<Longrightarrow> n < 10000 \<Longrightarrow> length (digits_of n) = 4"
proof -
  assume a: "1000 \<le> n" "n < 10000"
  then have "100 \<le> n div 10" "n div 10 < 1000" by simp_all
  then have "length (digits_of (n div 10)) = 3" by (rule length_digits_3)
  then show ?thesis using a by (simp add: digits_of_large del: digits_of.simps)
qed

lemma length_py_str_year:
  "1000 \<le> y \<Longrightarrow> y \<le> 9999 \<Longrightarrow> length (py_str y) = 4"
proof -
  assume a: "1000 \<le> y" "y \<le> 9999"
  then have "1000 \<le> nat y" "nat y < 10000" by simp_all
  then have "length (digits_of (nat y)) = 4" by (rule length_digits_4)
  then show ?thesis using a by (simp add: py_str_def del: digits_of.simps)
qed

lemma length_format_02d:
  "1 \<le> w \<Longrightarrow> w \<le> 53 \<Longrightarrow> length (format_02d w) = 2"
proof -
  assume a: "1 \<le> w" "w \<le> 53"
  show ?thesis
  proof (cases "w < 10")
    case True
    then have "nat w < 10" by simp
    then have "length (digits_of (nat w)) = 1" by (rule length_digits_1)
    then show ?thesis using a by (simp add: format_02d_def zfill_def del: digits_of.simps)
  next
    case False
    then have "10 \<le> nat w" "nat w < 100" using a by simp_all
    then have "length (digits_of (nat w)) = 2" by (rule length_digits_2)
    then show ?thesis using a by (simp add: format_02d_def zfill_def del: digits_of.simps)
  qed
qed

text \<open>
  For every string of the form \<open>dddd-dd-dd\<close> that \<open>fromisoformat\<close> accepts,
  \<open>_iso_week_key\<close> returns \<open>str\<close> of the ISO week-year, \<open>-W\<close>, and the ISO week number
  in two digits, where the ISO year is the calendar year of the Thursday of the date's
  Monday-to-Sunday week and the week number counts that year's Thursdays. The week number
  lies in 1..53 and the year in 1..9999.
\<close>

lemma iso_week_key_iso_rule:
  assumes "ymd_shape s" "fromisoformat other_formats s = Inr dt"
  shows "iso_week_key other_formats s
           = Inr (py_str (iso_year_spec dt) @ ''-W'' @ format_02d (iso_week_spec dt))"
    and "1 \<le> iso_week_spec dt" and "iso_week_spec dt \<le> 53"
    and "1 \<le> iso_year_spec dt" and "iso_year_spec dt \<le> 9999"
proof -
  note v = fromisoformat_valid [OF assms]
  have iso: "isocalendar dt
           = (iso_year_spec dt, iso_week_spec dt, weekday_of_ordinal (toordinal dt) + 1)"
    and wk: "1 \<le> iso_week_spec dt" "iso_week_spec dt \<le> 53"
    using isocalendar_year_week [OF v(3-6)] by blast+
  show "1 \<le> iso_week_spec dt" "iso_week_spec dt \<le> 53" by (rule wk)+
  show "1 \<le> iso_year_spec dt" "iso_year_spec dt \<le> 9999"
    using iso_year_range [OF v(3-6) v(1,2)] by blast+
  show "iso_week_key other_formats s
          = Inr (py_str (iso_year_spec dt) @ ''-W'' @ format_02d (iso_week_spec dt))"
    by (simp add: iso_week_key_def assms(2) iso)
qed


lemma iso_week_key_2024_12_30: "iso_week_key other_formats ''2024-12-30'' = Inr ''2025-W01''"
  by code_simp

text \<open>
  Claim C4. The week key follows the ISO week-year rules (lemma \<open>iso_week_key_iso_rule\<close>;
  2024-12-30 is bucketed under \<open>2025-W01\<close>), but it is not always of the form
  \<open>YYYY-Www\<close> that the claim and the docstring of \<open>_iso_week_key\<close> give: the year is
  written by \<open>f"{year}"\<close>, without the zero padding that the week gets. For the date
  0999-06-15, of ISO year 999 and ISO week 24, the label \<open>YYYY-Www\<close> is \<open>0999-W24\<close> and
  the code returns \<open>999-W24\<close>.
\<close>

theorem iso_week_key_year_below_1000:
  "iso_week_key other_formats ''0999-06-15'' = Inr ''999-W24''
   \<and> iso_year_spec \<lparr>year = 999, month = 6, day = 15\<rparr> = 999
   \<and> iso_week_spec \<lparr>year = 999, month = 6, day = 15\<rparr> = 24
   \<and> iso_week_label 999 24 = ''0999-W24''"
  by code_simp


subsection \<open>Skipped records\<close>






subsection \<open>The schema of the merged stat maps\<close>

















subsection \<open>The keys of the registry entries\<close>











subsection \<open>The keys that the reconciliation writes\<close>




subsection \<open>The totals are the sums of what the records give\<close>

lemma dict_get_add_stats:
  assumes "distinct keys"
  shows "dict_get (add_stats dst src keys) k 0
           = dict_get dst k 0 + (if k \<in> set keys then dict_get src k 0 else 0)"
proof (cases "k \<in> set keys")
  case True
  then have "map_of (add_stats dst src keys) k = Some (dict_get dst k 0 + dict_get src k 0)"
    using assms by (simp add: map_of_add_stats_key)
  with True show ?thesis by (simp add: dict_get_def)
next
  case False
  then have "map_of (add_stats dst src keys) k = map_of dst k"
    by (rule map_of_add_stats_other)
  with False show ?thesis by (simp add: dict_get_def)
qed

lemma dict_get_zero_stats: "dict_get (zero_stats keys) k 0 = 0"
  by (induction keys) (simp_all add: zero_stats_def dict_get_def)

lemma stat_value_add_entity_stats:
  assumes "distinct keys"
  shows "stat_value (add_entity_stats totals name src keys) n k
           = stat_value totals n k
             + (if n = name \<and> k \<in> set keys then dict_get src k 0 else 0)"
proof (cases "n = name")
  case False
  then show ?thesis
    by (simp add: stat_value_def add_entity_stats_def dict_get_update_other)
next
  case True
  have dst: "dict_get (dict_get totals name (zero_stats keys)) k 0
               = dict_get (dict_get totals name []) k 0"
  proof (cases "map_of totals name")
    case None
    then show ?thesis by (simp add: dict_get_def [of totals] dict_get_zero_stats) (simp add: dict_get_def)
  next
    case (Some m)
    then show ?thesis by (simp add: dict_get_def [of totals])
  qed
  show ?thesis
    using True dst
    by (simp add: stat_value_def add_entity_stats_def dict_get_update_same
        dict_get_add_stats [OF assms])
qed

lemma stat_value_fold_entity:
  assumes "distinct keys"
  shows "stat_value (fold (\<lambda>(name, src) totals. add_entity_stats totals name src keys)
                       block totals) n k
           = stat_value totals n k + (if k \<in> set keys then block_value block n k else 0)"
proof (induction block arbitrary: totals)
  case Nil
  show ?case by (simp add: block_value_def)
next
  case (Cons item block)
  obtain name src where item: "item = (name, src)" by (cases item)
  show ?case
    using item
    by (simp add: Cons.IH stat_value_add_entity_stats [OF assms] block_value_def)
qed

lemma stat_value_add_weekly_stats:
  assumes "distinct keys"
  shows "stat_value (dict_get (add_weekly_stats weekly wk name src keys) wk' []) n k
           = stat_value (dict_get weekly wk' []) n k
             + (if wk' = wk \<and> n = name \<and> k \<in> set keys then dict_get src k 0 else 0)"
proof (cases "wk' = wk")
  case False
  then show ?thesis by (simp add: add_weekly_stats_def dict_get_update_other)
next
  case True
  then show ?thesis
    by (simp add: add_weekly_stats_def dict_get_update_same
        stat_value_add_entity_stats [OF assms])
qed

lemma stat_value_fold_weekly:
  assumes "distinct keys"
  shows "stat_value (dict_get (fold (\<lambda>(name, src) weekly.
                                        add_weekly_stats weekly wk name src keys)
                                 block weekly) wk' []) n k
           = stat_value (dict_get weekly wk' []) n k
             + (if wk' = wk \<and> k \<in> set keys then block_value block n k else 0)"
proof (induction block arbitrary: weekly)
  case Nil
  show ?case by (simp add: block_value_def)
next
  case (Cons item block)
  obtain name src where item: "item = (name, src)" by (cases item)
  show ?case
    using item
    by (simp add: Cons.IH stat_value_add_weekly_stats [OF assms] block_value_def)
qed

lemma keys_fold_weekly:
  "fst ` set (fold (\<lambda>(name, src) weekly. add_weekly_stats weekly wk name src keys)
                block weekly)
     = fst ` set weekly \<union> (if block = [] then {} else {wk})"
proof (induction block arbitrary: weekly)
  case Nil
  show ?case by simp
next
  case (Cons item block)
  obtain name src where item: "item = (name, src)" by (cases item)
  have "fst ` set (fold (\<lambda>(name, src) weekly. add_weekly_stats weekly wk name src keys)
                block (add_weekly_stats weekly wk name src keys))
     = fst ` set (add_weekly_stats weekly wk name src keys)
         \<union> (if block = [] then {} else {wk})"
    by (rule Cons.IH)
  then show ?case using item by (simp add: add_weekly_stats_def dom_update)
qed

text \<open>The four accumulators after the two loops over the blocks of one record.\<close>

lemma merge_players_fields:
  "weekly_players (merge_players wk block st)
     = fold (\<lambda>(name, src) weekly. add_weekly_stats weekly wk name src PLAYER_STAT_KEYS)
         block (weekly_players st)"
  "season_players (merge_players wk block st)
     = fold (\<lambda>(name, src) totals. add_entity_stats totals name src PLAYER_STAT_KEYS)
         block (season_players st)"
  "weekly_teams (merge_players wk block st) = weekly_teams st"
  "season_teams (merge_players wk block st) = season_teams st"
  unfolding merge_players_def
  by (induction block arbitrary: st) (simp_all add: case_prod_beta)

lemma merge_teams_fields:
  "weekly_teams (merge_teams wk block st)
     = fold (\<lambda>(name, src) weekly. add_weekly_stats weekly wk name src TEAM_STAT_KEYS)
         block (weekly_teams st)"
  "season_teams (merge_teams wk block st)
     = fold (\<lambda>(name, src) totals. add_entity_stats totals name src TEAM_STAT_KEYS)
         block (season_teams st)"
  "weekly_players (merge_teams wk block st) = weekly_players st"
  "season_players (merge_teams wk block st) = season_players st"
  unfolding merge_teams_def
  by (induction block arbitrary: st) (simp_all add: case_prod_beta)


lemma merge_loop_step:
  assumes "date d = Some s" "s \<noteq> []" "iso_week_key other_formats s = Inr wk"
  shows "merge_loop other_formats (d # rest) st
           = merge_loop other_formats rest
               (merge_teams wk (record_teams d) (merge_players wk (record_players d) st))"
    and "record_week other_formats d = Some wk"
  using assms by (simp_all add: record_teams_def record_players_def record_week_def)

lemma merge_loop_skip:
  assumes "date d = None \<or> date d = Some []"
  shows "merge_loop other_formats (d # rest) st = merge_loop other_formats rest st"
    and "record_week other_formats d = None"
  using assms by (auto simp: record_week_def)

lemma merge_loop_sums:
  assumes "merge_loop other_formats summaries st = Inr st'"
  shows "(k \<in> set PLAYER_STAT_KEYS \<longrightarrow>
            stat_value (season_players st') n k
              = stat_value (season_players st) n k
                + season_sum record_players other_formats summaries n k)
       \<and> (k \<in> set TEAM_STAT_KEYS \<longrightarrow>
            stat_value (season_teams st') n k
              = stat_value (season_teams st) n k
                + season_sum record_teams other_formats summaries n k)
       \<and> (k \<in> set PLAYER_STAT_KEYS \<longrightarrow>
            stat_value (dict_get (weekly_players st') w []) n k
              = stat_value (dict_get (weekly_players st) w []) n k
                + week_sum record_players other_formats summaries w n k)
       \<and> (k \<in> set TEAM_STAT_KEYS \<longrightarrow>
            stat_value (dict_get (weekly_teams st') w []) n k
              = stat_value (dict_get (weekly_teams st) w []) n k
                + week_sum record_teams other_formats summaries w n k)
       \<and> fst ` set (weekly_players st')
            = fst ` set (weekly_players st)
              \<union> {wk. \<exists>d \<in> set summaries. record_week other_formats d = Some wk
                         \<and> record_players d \<noteq> []}"
  using assms
proof (induction summaries arbitrary: st)
  case Nil
  then show ?case by (simp add: season_sum_def week_sum_def)
next
  case (Cons d rest)
  consider (undated) "date d = None \<or> date d = Some []"
    | (failed) s e where "date d = Some s" "s \<noteq> []" "iso_week_key other_formats s = Inl e"
    | (dated) s wk where "date d = Some s" "s \<noteq> []" "iso_week_key other_formats s = Inr wk"
    by (cases "date d"; cases "iso_week_key other_formats (the (date d))") auto
  then show ?case
  proof cases
    case undated
    note skip = merge_loop_skip [OF undated]
    have "merge_loop other_formats rest st = Inr st'" using Cons.prems skip(1) by simp
    from Cons.IH [OF this] show ?thesis
      using skip(2) by (simp add: season_sum_def week_sum_def)
  next
    case failed
    then have "merge_loop other_formats (d # rest) st = Inl e" by simp
    with Cons.prems show ?thesis by simp
  next
    case dated
    note step = merge_loop_step [OF dated]
    let ?st = "merge_teams wk (record_teams d) (merge_players wk (record_players d) st)"
    have "merge_loop other_formats rest ?st = Inr st'" using Cons.prems step(1) by simp
    note IH = Cons.IH [OF this]
    have sp: "stat_value (season_players ?st) n k
                = stat_value (season_players st) n k
                  + (if k \<in> set PLAYER_STAT_KEYS then block_value (record_players d) n k else 0)"
      by (simp add: merge_teams_fields merge_players_fields
          stat_value_fold_entity [OF distinct_PLAYER_STAT_KEYS])
    have stm: "stat_value (season_teams ?st) n k
                = stat_value (season_teams st) n k
                  + (if k \<in> set TEAM_STAT_KEYS then block_value (record_teams d) n k else 0)"
      by (simp add: merge_teams_fields merge_players_fields
          stat_value_fold_entity [OF distinct_TEAM_STAT_KEYS])
    have wp: "stat_value (dict_get (weekly_players ?st) w []) n k
                = stat_value (dict_get (weekly_players st) w []) n k
                  + (if w = wk \<and> k \<in> set PLAYER_STAT_KEYS
                     then block_value (record_players d) n k else 0)"
      by (simp add: merge_teams_fields merge_players_fields
          stat_value_fold_weekly [OF distinct_PLAYER_STAT_KEYS])
    have wt: "stat_value (dict_get (weekly_teams ?st) w []) n k
                = stat_value (dict_get (weekly_teams st) w []) n k
                  + (if w = wk \<and> k \<in> set TEAM_STAT_KEYS
                     then block_value (record_teams d) n k else 0)"
      by (simp add: merge_teams_fields merge_players_fields
          stat_value_fold_weekly [OF distinct_TEAM_STAT_KEYS])
    have keys: "fst ` set (weekly_players ?st)
                  = fst ` set (weekly_players st)
                    \<union> (if record_players d = [] then {} else {wk})"
      by (simp add: merge_teams_fields merge_players_fields keys_fold_weekly)
    have season: "season_sum part other_formats (d # rest) n k
                    = block_value (part d) n k + season_sum part other_formats rest n k"
      for part
      using step(2) by (simp add: season_sum_def)
    have week: "week_sum part other_formats (d # rest) w n k
                  = (if w = wk then block_value (part d) n k else 0)
                    + week_sum part other_formats rest w n k"
      for part
      using step(2) by (auto simp: week_sum_def)
    have keyset: "{wk'. \<exists>d' \<in> set (d # rest). record_week other_formats d' = Some wk'
                         \<and> record_players d' \<noteq> []}
                    = (if record_players d = [] then {} else {wk})
                      \<union> {wk'. \<exists>d' \<in> set rest. record_week other_formats d' = Some wk'
                         \<and> record_players d' \<noteq> []}"
      using step(2) by auto
    show ?thesis
      using IH unfolding sp stm wp wt keys season week keyset
      by (simp add: Un_assoc)
  qed
qed


subsection \<open>The weekly reports\<close>

lemma map_of_fold_update:
  "map_of (fold (\<lambda>k acc. AList.update k (R k) acc) ks acc) k
     = (if k \<in> set ks then Some (R k) else map_of acc k)"
  by (induction ks arbitrary: acc) (simp_all add: update_conv')

lemma distinct_fold_update:
  "distinct (map fst acc) \<Longrightarrow>
     distinct (map fst (fold (\<lambda>k acc. AList.update k (R k) acc) ks acc))"
  by (induction ks arbitrary: acc) (simp_all add: distinct_update)

lemma map_of_finalize_weekly:
  "map_of (finalize_weekly st) wk
     = (if wk \<in> fst ` set (weekly_players st)
        then Some \<lparr>report_players = dict_get (weekly_players st) wk [],
                   report_teams = dict_get (weekly_teams st) wk []\<rparr>
        else None)"
  unfolding finalize_weekly_def by (simp add: map_of_fold_update)

lemma distinct_finalize_weekly: "distinct (map fst (finalize_weekly st))"
  unfolding finalize_weekly_def by (rule distinct_fold_update) simp

lemma merge_all_loop:
  assumes "merge_all other_formats root = Inr (weekly, season)"
  obtains st where
    "merge_loop other_formats (scan_series_summaries root)
       \<lparr>weekly_players = [], weekly_teams = [], season_players = [], season_teams = []\<rparr>
     = Inr st"
    and "weekly = finalize_weekly st"
    and "season = \<lparr>report_players = season_players st, report_teams = season_teams st\<rparr>"
  using assms by (auto simp: merge_all_def split: sum.splits)




lemma merge_all_weeks:
  assumes "merge_all other_formats root = Inr (weekly, season)"
  shows "fst ` set weekly
           = {wk. \<exists>d \<in> set (scan_series_summaries root).
                    record_week other_formats d = Some wk \<and> record_players d \<noteq> []}"
    and "distinct (map fst weekly)"
proof -
  from assms obtain st where
    loop: "merge_loop other_formats (scan_series_summaries root)
       \<lparr>weekly_players = [], weekly_teams = [], season_players = [], season_teams = []\<rparr>
     = Inr st"
    and weekly: "weekly = finalize_weekly st"
    by (rule merge_all_loop)
  have "fst ` set (finalize_weekly st) = fst ` set (weekly_players st)"
  proof -
    have "\<And>wk. (map_of (finalize_weekly st) wk = None) = (wk \<notin> fst ` set (weekly_players st))"
      by (simp add: map_of_finalize_weekly)
    then show ?thesis unfolding map_of_eq_None_iff by blast
  qed
  then show "fst ` set weekly
           = {wk. \<exists>d \<in> set (scan_series_summaries root).
                    record_week other_formats d = Some wk \<and> record_players d \<noteq> []}"
    using merge_loop_sums [OF loop] by (simp add: weekly)
  show "distinct (map fst weekly)" unfolding weekly by (rule distinct_finalize_weekly)
qed

subsection \<open>What the reconciliation writes with \<open>overwrite=True\<close>\<close>










subsection \<open>The stat maps of the core\<close>











subsection \<open>A run of \<open>merge_all\<close>\<close>

text \<open>
  A series root with a summary that does not parse, a summary without a date, a series of
  2025-06-02 (ISO week 23) and a series of 2025-06-09 (ISO week 24) whose summary has a
  team and no player.
\<close>

lemma week_2025_06_09: "iso_week_key other_formats ''2025-06-09'' = Inr ''2025-W24''"
  by code_simp


lemma merge_all_example:
  "merge_all other_formats
    (Directory
      [(''s1'', SeriesDir Unparsable),
       (''s2'', SeriesDir (Json \<lparr>series_id = Some ''s2'', date = None, team1 = Some ''Aces'',
        team2 = Some ''Kings'', games_played = Some 3,
        series_score = Some [(''Aces'', 2), (''Kings'', 1)], winner = Some ''Aces'',
        series_players = Some [(''Ana'', [(''points'', 7)])],
        series_teams = Some [(''Aces'', [(''total_points'', 7)])]\<rparr>)),
       (''s3'', SeriesDir (Json \<lparr>series_id = Some ''s3'', date = Some ''2025-06-02'',
        team1 = Some ''Aces'', team2 = Some ''Kings'', games_played = Some 3,
        series_score = Some [(''Aces'', 2), (''Kings'', 1)], winner = Some ''Aces'',
        series_players = Some [(''Ana'', [(''points'', 10), (''sinks'', 2), (''bogus'', 9)])],
        series_teams = Some [(''Aces'', [(''total_points'', 10)])]\<rparr>)),
       (''s4'', SeriesDir (Json \<lparr>series_id = Some ''s4'', date = Some ''2025-06-09'',
        team1 = Some ''Aces'', team2 = Some ''Kings'', games_played = Some 2,
        series_score = Some [(''Aces'', 2), (''Kings'', 0)], winner = Some ''Aces'',
        series_players = Some [],
        series_teams = Some [(''Aces'', [(''total_points'', 4)])]\<rparr>))])
   = Inr ([(''2025-W23'',
            \<lparr>report_players =
               [(''Ana'', [(''points'', 10), (''throws'', 0), (''table_hits'', 0),
                           (''catches'', 0), (''missed_catches'', 0), (''sinks'', 2),
                           (''rim_hits'', 0), (''rounds_won'', 0), (''series_won'', 0)])],
             report_teams =
               [(''Aces'', [(''total_points'', 10), (''total_throws'', 0),
                            (''total_table_hits'', 0), (''total_catches'', 0),
                            (''total_missed_catches'', 0), (''total_sinks'', 0),
                            (''total_rim_hits'', 0), (''total_rounds_won'', 0),
                            (''total_series_won'', 0)])]\<rparr>)],
          \<lparr>report_players =
             [(''Ana'', [(''points'', 10), (''throws'', 0), (''table_hits'', 0),
                         (''catches'', 0), (''missed_catches'', 0), (''sinks'', 2),
                         (''rim_hits'', 0), (''rounds_won'', 0), (''series_won'', 0)])],
           report_teams =
             [(''Aces'', [(''total_points'', 14), (''total_throws'', 0),
                          (''total_table_hits'', 0), (''total_catches'', 0),
                          (''total_missed_catches'', 0), (''total_sinks'', 0),
                          (''total_rim_hits'', 0), (''total_rounds_won'', 0),
                          (''total_series_won'', 0)])]\<rparr>)"
  by code_simp


text \<open>
  Claim C6. The claim is what the docstring of \<open>merge_all\<close> promises (weekly reports with
  per-player and per-team totals), but the weekly output gets its entries from the keys
  of \<open>weekly_players\<close> alone. The series of 2025-06-09 has a date and a team and no
  player: its week, 2025-W24, has no entry in the weekly output, and the 4 points of its
  team are in no week.
\<close>

theorem weekly_output_misses_week_without_players:
  "(case merge_all other_formats
    (Directory
      [(''s1'', SeriesDir Unparsable),
       (''s2'', SeriesDir (Json \<lparr>series_id = Some ''s2'', date = None, team1 = Some ''Aces'',
        team2 = Some ''Kings'', games_played = Some 3,
        series_score = Some [(''Aces'', 2), (''Kings'', 1)], winner = Some ''Aces'',
        series_players = Some [(''Ana'', [(''points'', 7)])],
        series_teams = Some [(''Aces'', [(''total_points'', 7)])]\<rparr>)),
       (''s3'', SeriesDir (Json \<lparr>series_id = Some ''s3'', date = Some ''2025-06-02'',
        team1 = Some ''Aces'', team2 = Some ''Kings'', games_played = Some 3,
        series_score = Some [(''Aces'', 2), (''Kings'', 1)], winner = Some ''Aces'',
        series_players = Some [(''Ana'', [(''points'', 10), (''sinks'', 2), (''bogus'', 9)])],
        series_teams = Some [(''Aces'', [(''total_points'', 10)])]\<rparr>)),
       (''s4'', SeriesDir (Json \<lparr>series_id = Some ''s4'', date = Some ''2025-06-09'',
        team1 = Some ''Aces'', team2 = Some ''Kings'', games_played = Some 2,
        series_score = Some [(''Aces'', 2), (''Kings'', 0)], winner = Some ''Aces'',
        series_players = Some [],
        series_teams = Some [(''Aces'', [(''total_points'', 4)])]\<rparr>))]) of
      Inl e \<Rightarrow> False
    | Inr (weekly, season) \<Rightarrow>
        iso_week_key other_formats ''2025-06-09'' = Inr ''2025-W24''
        \<and> map_of weekly ''2025-W24'' = None
        \<and> map fst weekly = [''2025-W23''])"
  unfolding merge_all_example week_2025_06_09 by simp

text \<open>
  Claim C2. For the same run the season total of the team is 14 points and the sum of
  its weekly totals over the weeks of the weekly output is 10: the week without players
  is missing from the weekly output (the defect of claim C6), so the season total of a
  team is not the sum of its weekly totals.
\<close>

theorem season_total_differs_from_weekly_sum:
  "(case merge_all other_formats
    (Directory
      [(''s1'', SeriesDir Unparsable),
       (''s2'', SeriesDir (Json \<lparr>series_id = Some ''s2'', date = None, team1 = Some ''Aces'',
        team2 = Some ''Kings'', games_played = Some 3,
        series_score = Some [(''Aces'', 2), (''Kings'', 1)], winner = Some ''Aces'',
        series_players = Some [(''Ana'', [(''points'', 7)])],
        series_teams = Some [(''Aces'', [(''total_points'', 7)])]\<rparr>)),
       (''s3'', SeriesDir (Json \<lparr>series_id = Some ''s3'', date = Some ''2025-06-02'',
        team1 = Some ''Aces'', team2 = Some ''Kings'', games_played = Some 3,
        series_score = Some [(''Aces'', 2), (''Kings'', 1)], winner = Some ''Aces'',
        series_players = Some [(''Ana'', [(''points'', 10), (''sinks'', 2), (''bogus'', 9)])],
        series_teams = Some [(''Aces'', [(''total_points'', 10)])]\<rparr>)),
       (''s4'', SeriesDir (Json \<lparr>series_id = Some ''s4'', date = Some ''2025-06-09'',
        team1 = Some ''Aces'', team2 = Some ''Kings'', games_played = Some 2,
        series_score = Some [(''Aces'', 2), (''Kings'', 0)], winner = Some ''Aces'',
        series_players = Some [],
        series_teams = Some [(''Aces'', [(''total_points'', 4)])]\<rparr>))]) of
      Inl e \<Rightarrow> False
    | Inr (weekly, season) \<Rightarrow>
        season_total report_teams season ''Aces'' ''total_points'' = 14
        \<and> weekly_sum report_teams weekly ''Aces'' ''total_points'' = 10)"
  unfolding merge_all_example
  by (simp add: season_total_def weekly_sum_def dict_get_def)

end
